theory Spec2Isabelle
  imports Complex_Main
begin

section \<open>Numbers and order-book levels\<close>

text \<open>
  The program computes on JavaScript numbers.  The embedding uses exact rationals for
  every finite number: prices, sizes, share counts, balances and fee rates are \<open>rat\<close>,
  \<open>Math.floor\<close> is \<open>floor\<close>, and a value that may be \<open>null\<close> (or NaN, which the code
  tests with \<open>Number.isFinite\<close>) is an \<open>option\<close>.  The tolerances the code writes out
  (\<open>1e-9\<close>, \<open>PRICE_EPS\<close>) are kept, and arithmetic is exact.  One place is treated
  differently: the bound of the binary search of \<open>maxSharesForBudget\<close> is \<open>Math.floor\<close>
  of a double-precision sum and quotient, whose rounding can move the bound by a whole
  share, and what is proved of that function is about the largest share count; there the
  double-precision operations are arguments of the definition.

  A level of an order book is what \<open>normalizeLevels\<close> of src/engine.js produces:
  a finite price and a finite size.
\<close>

record level =
  price :: rat
  size_l :: rat

text \<open>\<open>feeBps || 0\<close> and \<open>Number.isFinite(feeBps) ? feeBps : 0\<close>: a missing rate counts as 0.\<close>

definition feeOrZero :: "rat option \<Rightarrow> rat" where
  "feeOrZero feeBps = (case feeBps of None \<Rightarrow> 0 | Some b \<Rightarrow> b)"

text \<open>\<open>normalizeFeeBps\<close> (src/engine.js): the only writer of the per-token fee rates.\<close>

definition normalizeFeeBps :: "rat option \<Rightarrow> rat option" where
  "normalizeFeeBps raw =
     (case raw of
        None \<Rightarrow> None
      | Some x \<Rightarrow>
          if x < 0 then None
          else if 0 < x \<and> x < 1 then Some (x * 10000)
          else Some x)"

definition applyTakerFeeOnSell :: "rat \<Rightarrow> rat option \<Rightarrow> rat" where
  "applyTakerFeeOnSell proceedsUsdc feeBps = proceedsUsdc * (1 - feeOrZero feeBps / 10000)"

definition clampInt :: "rat \<Rightarrow> int \<Rightarrow> int \<Rightarrow> int" where
  "clampInt n lo hi = max lo (min hi \<lfloor>n\<rfloor>)"

section \<open>BookMath of src/engine.js\<close>

subsection \<open>costToBuySharesFromAsks\<close>

text \<open>
  The \<open>for\<close> loop of \<open>costToBuySharesFromAsks\<close>, with its three local variables
  \<open>remaining\<close>, \<open>cost\<close> and \<open>maxPrice\<close> as arguments and as result.
\<close>

fun sweepAsks :: "level list \<Rightarrow> rat \<Rightarrow> rat \<Rightarrow> rat \<Rightarrow> rat \<times> rat \<times> rat" where
  "sweepAsks [] remaining cost maxPrice = (remaining, cost, maxPrice)"
| "sweepAsks (l # ls) remaining cost maxPrice =
     (if \<not> remaining > 0 then (remaining, cost, maxPrice)
      else
        let take = min remaining (size_l l) in
        if take \<le> 0 then sweepAsks ls remaining cost maxPrice
        else sweepAsks ls (remaining - take) (cost + take * price l) (price l))"

record buyFill =
  bf_cost :: rat
  bf_maxPrice :: rat

definition costToBuySharesFromAsks :: "level list \<Rightarrow> rat \<Rightarrow> rat option \<Rightarrow> buyFill option" where
  "costToBuySharesFromAsks asks shares feeBps =
     (if asks = [] then None
      else if \<not> shares > 0 then None
      else
        case sweepAsks asks shares 0 0 of
          (remaining, cost, maxPrice) \<Rightarrow>
            if remaining > 1 / 10 ^ 9 then None
            else Some \<lparr> bf_cost = cost * (1 + feeOrZero feeBps / 10000),
                        bf_maxPrice = maxPrice \<rparr>)"

subsection \<open>proceedsFromSellingSharesToBids\<close>

fun sweepBids :: "level list \<Rightarrow> rat \<Rightarrow> rat \<Rightarrow> rat \<Rightarrow> rat option \<Rightarrow> rat \<times> rat \<times> rat option" where
  "sweepBids [] minPrice01 remaining gross minFilled = (remaining, gross, minFilled)"
| "sweepBids (l # ls) minPrice01 remaining gross minFilled =
     (if \<not> remaining > 0 then (remaining, gross, minFilled)
      else if \<not> price l \<ge> minPrice01 then (remaining, gross, minFilled)
      else
        let take = min remaining (size_l l) in
        if take \<le> 0 then sweepBids ls minPrice01 remaining gross minFilled
        else sweepBids ls minPrice01 (remaining - take) (gross + take * price l) (Some (price l)))"

record sellFill =
  sf_gross :: rat
  sf_proceeds :: rat
  sf_minFilledPrice :: "rat option"

definition proceedsFromSellingSharesToBids ::
  "level list \<Rightarrow> rat \<Rightarrow> rat option \<Rightarrow> rat \<Rightarrow> sellFill option" where
  "proceedsFromSellingSharesToBids bids shares feeBps minPrice01 =
     (if bids = [] then None
      else if \<not> shares > 0 then None
      else
        case sweepBids bids minPrice01 shares 0 None of
          (remaining, gross, minFilled) \<Rightarrow>
            if remaining > 1 / 10 ^ 9 then None
            else Some \<lparr> sf_gross = gross,
                        sf_proceeds = applyTakerFeeOnSell gross feeBps,
                        sf_minFilledPrice = minFilled \<rparr>)"

subsection \<open>Depth of a side\<close>


text \<open>
  The depth a buy sweep can consume: levels whose size is not positive are skipped by the
  loop (\<open>take <= 0\<close>), every other level gives up to its size.
\<close>


definition posDepth :: "level list \<Rightarrow> rat" where
  "posDepth ls = sum_list (map (\<lambda>l. max 0 (size_l l)) ls)"

subsection \<open>maxSharesForBudget\<close>

text \<open>The \<open>reduce\<close> over the sizes of the levels, in exact arithmetic.\<close>

definition sumSizes :: "level list \<Rightarrow> rat" where
  "sumSizes levels = foldl (\<lambda>acc l. acc + size_l l) 0 levels"

text \<open>
  The upper bound of the search in \<open>maxSharesForBudget\<close> is
  \<open>Math.floor\<close> of a sum of sizes and of the quotient \<open>maxUsdc / approxPerShare\<close>, both
  computed on IEEE doubles.  A double quotient can fall just below the exact one
  (\<open>8.37 / 0.31\<close> is \<open>26.999999999999996\<close>, whose floor is 26, although \<open>27 * 0.31 <= 8.37\<close>
  holds), so the floor of the exact quotient is not the bound the program uses.  The
  addition, multiplication and division that produce the bound are therefore arguments of
  the model, and nothing is assumed of them; \<open>exactOps\<close> is their exact instance.
\<close>

record doubleOps =
  dplus :: "rat \<Rightarrow> rat \<Rightarrow> rat"
  dtimes :: "rat \<Rightarrow> rat \<Rightarrow> rat"
  ddivide :: "rat \<Rightarrow> rat \<Rightarrow> rat"

definition exactOps :: doubleOps where
  "exactOps = \<lparr> dplus = (\<lambda>a b. a + b), dtimes = (\<lambda>a b. a * b), ddivide = (\<lambda>a b. a / b) \<rparr>"

definition sumSizes64 :: "doubleOps \<Rightarrow> level list \<Rightarrow> rat" where
  "sumSizes64 ops levels = foldl (\<lambda>acc l. dplus ops acc (size_l l)) 0 levels"

record shareFill =
  sh_shares :: int
  sh_cost :: rat
  sh_maxPrice :: rat

text \<open>
  The \<open>while (lo <= hi)\<close> loop of \<open>maxSharesForBudget\<close>.  \<open>hi\<close> and \<open>mid\<close> are integers
  (\<open>clampInt\<close> and \<open>Math.floor\<close> produce them); \<open>lo\<close> starts as the caller's
  \<open>minShares\<close>, any number.
\<close>

function searchShares ::
  "level list \<Rightarrow> rat option \<Rightarrow> rat \<Rightarrow> rat \<Rightarrow> int \<Rightarrow> shareFill option \<Rightarrow> shareFill option" where
  "searchShares asks feeBps maxUsdc lo hi bestFill =
     (if lo \<le> of_int hi then
        let mid = \<lfloor>(lo + of_int hi) / 2\<rfloor> in
        case costToBuySharesFromAsks asks (of_int mid) feeBps of
          None \<Rightarrow> searchShares asks feeBps maxUsdc lo (mid - 1) bestFill
        | Some fill \<Rightarrow>
            if bf_cost fill \<le> maxUsdc
            then searchShares asks feeBps maxUsdc (of_int mid + 1) hi
                   (Some \<lparr> sh_shares = mid, sh_cost = bf_cost fill, sh_maxPrice = bf_maxPrice fill \<rparr>)
            else searchShares asks feeBps maxUsdc lo (mid - 1) bestFill
      else bestFill)"
  by pat_completeness auto

text \<open>The loop ends: each iteration shrinks the interval between \<open>lo\<close> and \<open>hi\<close>.\<close>

definition searchMeasure :: "rat \<Rightarrow> int \<Rightarrow> nat" where
  "searchMeasure lo hi = nat (2 * (hi - \<lceil>lo\<rceil> + 1) + (if of_int \<lfloor>lo\<rfloor> = lo then 0 else 1))"

termination searchShares
proof -
  have hi_step: "searchMeasure lo (\<lfloor>(lo + of_int hi) / 2\<rfloor> - 1) < searchMeasure lo hi"
    if "lo \<le> of_int hi" for lo hi
  proof -
    have "(lo + of_int hi) / 2 \<le> of_int hi" using that by simp
    then have m: "\<lfloor>(lo + of_int hi) / 2\<rfloor> \<le> hi" by (simp add: floor_le_iff)
    have c: "\<lceil>lo\<rceil> \<le> hi" using that by (simp add: ceiling_le_iff)
    show ?thesis unfolding searchMeasure_def using m c by (auto split: if_splits)
  qed
  have lo_step: "searchMeasure (of_int \<lfloor>(lo + of_int hi) / 2\<rfloor> + 1) hi < searchMeasure lo hi"
    if "lo \<le> of_int hi" for lo hi
  proof -
    have "lo \<le> (lo + of_int hi) / 2" using that by simp
    then have m: "\<lfloor>lo\<rfloor> \<le> \<lfloor>(lo + of_int hi) / 2\<rfloor>" by (rule floor_mono)
    have c: "\<lceil>lo\<rceil> \<le> hi" using that by (simp add: ceiling_le_iff)
    have fc: "\<lceil>lo\<rceil> = (if of_int \<lfloor>lo\<rfloor> = lo then \<lfloor>lo\<rfloor> else \<lfloor>lo\<rfloor> + 1)"
      by (auto simp add: ceiling_altdef)
    have i: "of_int \<lfloor>of_int \<lfloor>(lo + of_int hi) / 2\<rfloor> + (1::rat)\<rfloor>
        = of_int \<lfloor>(lo + of_int hi) / 2\<rfloor> + (1::rat)"
      by simp
    have ce: "\<lceil>of_int \<lfloor>(lo + of_int hi) / 2\<rfloor> + (1::rat)\<rceil> = \<lfloor>(lo + of_int hi) / 2\<rfloor> + 1"
      by simp
    show ?thesis unfolding searchMeasure_def i ce using m c fc by (auto split: if_splits)
  qed
  show ?thesis
    by (relation "measure (\<lambda>(asks, feeBps, maxUsdc, lo, hi, bestFill). searchMeasure lo hi)")
       (auto simp: hi_step lo_step)
qed

declare searchShares.simps [simp del]

definition maxSharesForBudget ::
  "doubleOps \<Rightarrow> level list \<Rightarrow> rat option \<Rightarrow> rat \<Rightarrow> rat \<Rightarrow> shareFill option" where
  "maxSharesForBudget ops asks feeBps maxUsdc minShares =
     (case asks of
        [] \<Rightarrow> None
      | l0 # _ \<Rightarrow>
          let best = price l0 in
          if \<not> best > 0 \<or> \<not> maxUsdc > 0 then None
          else
            let totalSize = \<lfloor>sumSizes64 ops asks\<rfloor> in
            if of_int totalSize < minShares then None
            else
              let approxPerShare = dtimes ops best (dplus ops 1 (ddivide ops (feeOrZero feeBps) 10000));
                  budgetBound = (if approxPerShare > 0 then \<lfloor>ddivide ops maxUsdc approxPerShare\<rfloor> else 0);
                  hi = clampInt (of_int (min totalSize budgetBound)) 0 (10 ^ 9)
              in
                if of_int hi < minShares then None
                else searchShares asks feeBps maxUsdc minShares hi None)"

text \<open>
  Vocabulary for the sizing claim: a probe of the search succeeds; a share count is
  fillable within the budget when the ladder holds that many shares and their
  fee-inclusive cost is within the budget.
\<close>

definition probeOK :: "level list \<Rightarrow> rat option \<Rightarrow> rat \<Rightarrow> int \<Rightarrow> bool" where
  "probeOK asks feeBps maxUsdc n =
     (case costToBuySharesFromAsks asks (of_int n) feeBps of
        None \<Rightarrow> False
      | Some fill \<Rightarrow> bf_cost fill \<le> maxUsdc)"

definition fillableWithin :: "level list \<Rightarrow> rat option \<Rightarrow> rat \<Rightarrow> int \<Rightarrow> bool" where
  "fillableWithin asks feeBps maxUsdc n =
     (of_int n \<le> sumSizes asks \<and> probeOK asks feeBps maxUsdc n)"


text \<open>
  The initial upper bound \<open>hi\<close> of the search, as \<open>maxSharesForBudget\<close> computes it once
  the guards before it have passed.
\<close>

definition searchHi :: "doubleOps \<Rightarrow> level list \<Rightarrow> rat option \<Rightarrow> rat \<Rightarrow> int" where
  "searchHi ops asks feeBps maxUsdc =
     (let totalSize = \<lfloor>sumSizes64 ops asks\<rfloor>;
          approxPerShare = dtimes ops (price (hd asks)) (dplus ops 1 (ddivide ops (feeOrZero feeBps) 10000));
          budgetBound = (if approxPerShare > 0 then \<lfloor>ddivide ops maxUsdc approxPerShare\<rfloor> else 0)
      in clampInt (of_int (min totalSize budgetBound)) 0 (10 ^ 9))"

text \<open>
  The double division at the one input used below: \<open>8.37 / 0.31\<close> evaluates to the double
  \<open>27 - 2^-48\<close> (printed \<open>26.999999999999996\<close>); elsewhere the operations are exact.
\<close>

definition roundedOps :: doubleOps where
  "roundedOps =
     \<lparr> dplus = (\<lambda>a b. a + b), dtimes = (\<lambda>a b. a * b),
       ddivide = (\<lambda>a b. if a = 837 / 100 \<and> b = 31 / 100 then 27 - 1 / 2 ^ 48 else a / b) \<rparr>"

section \<open>BookMath of the certainty mode (src/unnamed/part_001)\<close>

text \<open>
  The constants are the defaults the module takes when the environment does not override
  them (\<open>Number(process.env.X || default)\<close>).
\<close>

definition PRICE_EPS :: rat where
  "PRICE_EPS = 1 / 1000"

definition POLYMARKET_FEE_RATE :: rat where
  "POLYMARKET_FEE_RATE = 2 / 100"

definition calcPolymarketFee :: "rat \<Rightarrow> rat option \<Rightarrow> rat" where
  "calcPolymarketFee notionalUsdc price01 =
     (case price01 of
        None \<Rightarrow> 0
      | Some p \<Rightarrow> notionalUsdc * (1 - p) * POLYMARKET_FEE_RATE)"

text \<open>
  The loop of \<open>costToBuySharesFromAsksReal\<close>; the record holds its local variables.
\<close>

record askSweep =
  as_remaining :: rat
  as_notional :: rat
  as_maxFilled :: rat
  as_weightedPriceSum :: rat
  as_filledShares :: rat

definition aboveMax :: "rat option \<Rightarrow> rat \<Rightarrow> bool" where
  "aboveMax maxPrice01 p = (case maxPrice01 of None \<Rightarrow> False | Some mp \<Rightarrow> p > mp + PRICE_EPS)"

fun sweepAsksReal :: "level list \<Rightarrow> rat option \<Rightarrow> askSweep \<Rightarrow> askSweep" where
  "sweepAsksReal [] maxPrice01 st = st"
| "sweepAsksReal (l # ls) maxPrice01 st =
     (if \<not> as_remaining st > 0 then st
      else if \<not> price l > 0 \<or> \<not> size_l l > 0 then sweepAsksReal ls maxPrice01 st
      else if aboveMax maxPrice01 (price l) then st
      else
        let take = min (as_remaining st) (size_l l) in
        sweepAsksReal ls maxPrice01
          \<lparr> as_remaining = as_remaining st - take,
            as_notional = as_notional st + take * price l,
            as_maxFilled = price l,
            as_weightedPriceSum = as_weightedPriceSum st + take * price l,
            as_filledShares = as_filledShares st + take \<rparr>)"

definition askSweepInit :: "rat \<Rightarrow> askSweep" where
  "askSweepInit shares =
     \<lparr> as_remaining = shares, as_notional = 0, as_maxFilled = 0,
       as_weightedPriceSum = 0, as_filledShares = 0 \<rparr>"

record realFill =
  rf_shares :: rat
  rf_notional :: rat
  rf_fee :: rat
  rf_cost :: rat
  rf_maxPrice :: rat
  rf_avgPrice :: rat

definition costToBuySharesFromAsksReal :: "level list \<Rightarrow> rat \<Rightarrow> rat option \<Rightarrow> realFill option" where
  "costToBuySharesFromAsksReal asks shares maxPrice01 =
     (if asks = [] then None
      else if \<not> shares > 0 then None
      else
        let st = sweepAsksReal asks maxPrice01 (askSweepInit shares) in
        if as_remaining st > 1 / 10 ^ 9 then None
        else
          let avgPrice = (if as_filledShares st > 0
                          then as_weightedPriceSum st / as_filledShares st
                          else as_maxFilled st);
              fee = calcPolymarketFee (as_notional st) (Some avgPrice);
              cost = as_notional st + fee
          in Some \<lparr> rf_shares = shares, rf_notional = as_notional st, rf_fee = fee,
                    rf_cost = cost, rf_maxPrice = as_maxFilled st, rf_avgPrice = avgPrice \<rparr>)"

subsection \<open>What a sweep can consume, and what it consumed\<close>

text \<open>
  The bid loop stops at the first level priced below \<open>minPrice01\<close>; the certainty ask loop
  skips levels without positive price and size and stops at the first level priced above
  \<open>maxPrice01 + PRICE_EPS\<close>.  The shares a sweep consumed are the requested shares minus
  the final value of \<open>remaining\<close> (the certainty loop counts them in \<open>filledShares\<close>).
\<close>

fun bidDepth :: "rat \<Rightarrow> level list \<Rightarrow> rat" where
  "bidDepth minPrice01 [] = 0"
| "bidDepth minPrice01 (l # ls) =
     (if price l \<ge> minPrice01 then max 0 (size_l l) + bidDepth minPrice01 ls else 0)"

fun askDepthReal :: "rat option \<Rightarrow> level list \<Rightarrow> rat" where
  "askDepthReal maxPrice01 [] = 0"
| "askDepthReal maxPrice01 (l # ls) =
     (if \<not> price l > 0 \<or> \<not> size_l l > 0 then askDepthReal maxPrice01 ls
      else if aboveMax maxPrice01 (price l) then 0
      else size_l l + askDepthReal maxPrice01 ls)"

definition consumedAsks :: "level list \<Rightarrow> rat \<Rightarrow> rat" where
  "consumedAsks asks shares = shares - fst (sweepAsks asks shares 0 0)"

definition consumedBids :: "level list \<Rightarrow> rat \<Rightarrow> rat \<Rightarrow> rat" where
  "consumedBids bids minPrice01 shares = shares - fst (sweepBids bids minPrice01 shares 0 None)"

definition consumedAsksReal :: "level list \<Rightarrow> rat option \<Rightarrow> rat \<Rightarrow> rat" where
  "consumedAsksReal asks maxPrice01 shares =
     as_filledShares (sweepAsksReal asks maxPrice01 (askSweepInit shares))"

section \<open>StrategyArbitrage (src/unnamed/part_000)\<close>

definition STRADDLE_MIN_USDC :: rat where "STRADDLE_MIN_USDC = 5"

definition STRADDLE_MAX_USDC :: rat where "STRADDLE_MAX_USDC = max STRADDLE_MIN_USDC 10"

definition STRADDLE_MIN_PROFIT_CENTS :: rat where "STRADDLE_MIN_PROFIT_CENTS = 1 / 4"

definition STRADDLE_MIN_SHARES :: rat where "STRADDLE_MIN_SHARES = 1"

text \<open>
  \<open>computeEqualProfitStraddle\<close> and its \<open>while (lo <= hi)\<close> loop.  The settings are the
  module's defaults.  \<open>profitEach\<close> is \<open>mid - totalCost\<close>, the payout of \<open>mid\<close> straddles
  minus what they cost, as the source computes it.
\<close>

record straddle =
  sd_shares :: int
  sd_cost :: rat
  sd_profitCentsEach :: rat
  sd_upCost :: rat
  sd_downCost :: rat
  sd_upMaxPrice :: rat
  sd_downMaxPrice :: rat

function searchStraddle ::
  "level list \<Rightarrow> level list \<Rightarrow> rat \<Rightarrow> rat \<Rightarrow> rat \<Rightarrow> rat \<Rightarrow> rat \<Rightarrow> int \<Rightarrow> straddle option
   \<Rightarrow> straddle option" where
  "searchStraddle upAsks downAsks upFee downFee maxUsdc minProfitCents lo hi best =
     (if lo \<le> of_int hi then
        let mid = \<lfloor>(lo + of_int hi) / 2\<rfloor>;
            upFill = costToBuySharesFromAsks upAsks (of_int mid) (Some upFee);
            downFill = costToBuySharesFromAsks downAsks (of_int mid) (Some downFee)
        in
          case upFill of
            None \<Rightarrow> searchStraddle upAsks downAsks upFee downFee maxUsdc minProfitCents lo (mid - 1) best
          | Some uf \<Rightarrow>
             (case downFill of
                None \<Rightarrow> searchStraddle upAsks downAsks upFee downFee maxUsdc minProfitCents lo (mid - 1) best
              | Some df \<Rightarrow>
                  let totalCost = bf_cost uf + bf_cost df;
                      profitEach = of_int mid - totalCost;
                      profitCentsEach = profitEach * 100;
                      ok = (totalCost \<le> maxUsdc \<and> profitCentsEach \<ge> minProfitCents)
                  in
                    if ok
                    then searchStraddle upAsks downAsks upFee downFee maxUsdc minProfitCents
                           (of_int mid + 1) hi
                           (Some \<lparr> sd_shares = mid, sd_cost = totalCost,
                                    sd_profitCentsEach = profitCentsEach,
                                    sd_upCost = bf_cost uf, sd_downCost = bf_cost df,
                                    sd_upMaxPrice = bf_maxPrice uf, sd_downMaxPrice = bf_maxPrice df \<rparr>)
                    else searchStraddle upAsks downAsks upFee downFee maxUsdc minProfitCents
                           lo (mid - 1) best)
      else best)"
  by pat_completeness auto

termination searchStraddle
proof -
  have hi_step: "searchMeasure lo (\<lfloor>(lo + of_int hi) / 2\<rfloor> - 1) < searchMeasure lo hi"
    if "lo \<le> of_int hi" for lo hi
  proof -
    have "(lo + of_int hi) / 2 \<le> of_int hi" using that by simp
    then have m: "\<lfloor>(lo + of_int hi) / 2\<rfloor> \<le> hi" by (simp add: floor_le_iff)
    have c: "\<lceil>lo\<rceil> \<le> hi" using that by (simp add: ceiling_le_iff)
    show ?thesis unfolding searchMeasure_def using m c by (auto split: if_splits)
  qed
  have lo_step: "searchMeasure (of_int \<lfloor>(lo + of_int hi) / 2\<rfloor> + 1) hi < searchMeasure lo hi"
    if "lo \<le> of_int hi" for lo hi
  proof -
    have "lo \<le> (lo + of_int hi) / 2" using that by simp
    then have m: "\<lfloor>lo\<rfloor> \<le> \<lfloor>(lo + of_int hi) / 2\<rfloor>" by (rule floor_mono)
    have c: "\<lceil>lo\<rceil> \<le> hi" using that by (simp add: ceiling_le_iff)
    have fc: "\<lceil>lo\<rceil> = (if of_int \<lfloor>lo\<rfloor> = lo then \<lfloor>lo\<rfloor> else \<lfloor>lo\<rfloor> + 1)"
      by (auto simp add: ceiling_altdef)
    have i: "of_int \<lfloor>of_int \<lfloor>(lo + of_int hi) / 2\<rfloor> + (1::rat)\<rfloor>
        = of_int \<lfloor>(lo + of_int hi) / 2\<rfloor> + (1::rat)"
      by simp
    have ce: "\<lceil>of_int \<lfloor>(lo + of_int hi) / 2\<rfloor> + (1::rat)\<rceil> = \<lfloor>(lo + of_int hi) / 2\<rfloor> + 1"
      by simp
    show ?thesis unfolding searchMeasure_def i ce using m c fc by (auto split: if_splits)
  qed
  show ?thesis
    by (relation "measure (\<lambda>(upAsks, downAsks, upFee, downFee, maxUsdc, minProfitCents, lo, hi, best).
          searchMeasure lo hi)")
       (auto simp: hi_step lo_step)
qed

declare searchStraddle.simps [simp del]

definition computeEqualProfitStraddle ::
  "level list \<Rightarrow> level list \<Rightarrow> rat option \<Rightarrow> rat option \<Rightarrow> rat \<Rightarrow> rat \<Rightarrow> rat \<Rightarrow> straddle option" where
  "computeEqualProfitStraddle upAsks downAsks upFeeBps downFeeBps maxUsdc minShares minProfitCents =
     (let upFee = feeOrZero upFeeBps;
          downFee = feeOrZero downFeeBps;
          maxFillableShares = \<lfloor>min (sumSizes upAsks) (sumSizes downAsks)\<rfloor>
      in
        if of_int maxFillableShares < minShares then None
        else
          case (upAsks, downAsks) of
            (u0 # _, d0 # _) \<Rightarrow>
              let upBest = price u0; downBest = price d0 in
              if \<not> (upBest > 0 \<and> downBest > 0) then None
              else
                let approxPerShare = upBest * (1 + upFee / 10000) + downBest * (1 + downFee / 10000);
                    budgetBound = (if maxUsdc > 0 \<and> approxPerShare > 0
                                   then \<lfloor>maxUsdc / approxPerShare\<rfloor> else 0);
                    hi = clampInt (of_int (min maxFillableShares budgetBound)) 0 (10 ^ 9)
                in
                  if of_int hi < minShares then None
                  else searchStraddle upAsks downAsks upFee downFee maxUsdc minProfitCents
                         minShares hi None
          | _ \<Rightarrow> None)"

section \<open>What a tick sees of the world\<close>

text \<open>
  The engine refreshes the books and then calls the active mode's \<open>onOrderbooks\<close>.  What a
  mode reads from \<open>ctx\<close> during one call is a value here; what it mutates (the paper
  balance, its own sub-state) is passed in and returned.  \<open>Date.now()\<close> is a field of the
  tick.  Log lines and fields that only feed the dashboard are left out.
\<close>

datatype side = Up | Down

record bookSummary =
  bs_bestBid :: rat
  bs_bestAsk :: rat
  bs_mark :: rat

definition computeMarkPrice :: "rat \<Rightarrow> rat \<Rightarrow> rat" where
  "computeMarkPrice bestBid bestAsk =
     (if bestBid > 0 \<and> bestAsk > 0 then (bestBid + bestAsk) / 2
      else if bestAsk > 0 then bestAsk
      else if bestBid > 0 then bestBid
      else 0)"

text \<open>
  \<open>summarizeOrderbook\<close> (src/engine.js) fills a summary from the best bid and best ask;
  \<open>refreshOrderbooks\<close> calls the mode only when both best asks are positive and not both
  above 0.90.
\<close>

definition summarizeOrderbook :: "rat \<Rightarrow> rat \<Rightarrow> bookSummary" where
  "summarizeOrderbook bestBid bestAsk =
     \<lparr> bs_bestBid = bestBid, bs_bestAsk = bestAsk, bs_mark = computeMarkPrice bestBid bestAsk \<rparr>"

definition engineCallsMode :: "bookSummary option \<Rightarrow> bookSummary option \<Rightarrow> bool" where
  "engineCallsMode up down =
     (case (up, down) of
        (Some u, Some d) \<Rightarrow>
          bs_bestAsk u > 0 \<and> bs_bestAsk d > 0
          \<and> \<not> (bs_bestAsk u > 9 / 10 \<and> bs_bestAsk d > 9 / 10)
      | _ \<Rightarrow> False)"

record marketInfo =
  mi_nowMs :: int
  mi_endEpochSec :: "rat option"
  mi_marketId :: "string option"
  mi_referencePrice :: "rat option"
  mi_conditionId :: "string option"
  mi_underlyingPrice :: "rat option"

definition nowSec :: "marketInfo \<Rightarrow> int" where
  "nowSec mi = mi_nowMs mi div 1000"

definition endEpochOrDefault :: "marketInfo \<Rightarrow> rat" where
  "endEpochOrDefault mi =
     (case mi_endEpochSec mi of
        None \<Rightarrow> of_int (nowSec mi + 15 * 60)
      | Some e \<Rightarrow> if e = 0 then of_int (nowSec mi + 15 * 60) else e)"

text \<open>JavaScript truthiness of an identifier: neither \<open>null\<close>/\<open>undefined\<close> nor the empty string.\<close>

definition truthy :: "string option \<Rightarrow> bool" where
  "truthy s = (case s of None \<Rightarrow> False | Some t \<Rightarrow> t \<noteq> [])"

section \<open>StrategyArbitrage: execution\<close>

record arbPosition =
  ap_sharesPerSide :: int
  ap_totalCostUsdc :: rat
  ap_openedAt :: int
  ap_endEpochSec :: rat
  ap_marketId :: "string option"
  ap_referencePrice :: "rat option"
  ap_openedSpot :: "rat option"

definition executePaperDelta :: "rat \<Rightarrow> rat \<Rightarrow> rat" where
  "executePaperDelta paperBalance deltaUsdc = paperBalance + deltaUsdc"

definition executePaperStraddle ::
  "marketInfo \<Rightarrow> int \<Rightarrow> rat \<Rightarrow> rat \<times> arbPosition option \<Rightarrow> rat \<times> arbPosition option" where
  "executePaperStraddle mi sharesPerSide totalCostUsdc st =
     (case st of (paperBalance, arbOpen) \<Rightarrow>
        let cost = totalCostUsdc in
        if \<not> cost > 0 then st
        else if cost > paperBalance then st
        else if arbOpen \<noteq> None then st
        else
          (executePaperDelta paperBalance (- cost),
           Some \<lparr> ap_sharesPerSide = sharesPerSide,
                   ap_totalCostUsdc = cost,
                   ap_openedAt = mi_nowMs mi,
                   ap_endEpochSec = endEpochOrDefault mi,
                   ap_marketId = mi_marketId mi,
                   ap_referencePrice = mi_referencePrice mi,
                   ap_openedSpot = mi_underlyingPrice mi \<rparr>))"

definition liveCanSpendUsdc :: "rat option \<Rightarrow> rat option \<Rightarrow> rat \<Rightarrow> bool" where
  "liveCanSpendUsdc balanceUsdc allowanceUsdc requiredUsdc =
     (if \<not> requiredUsdc > 0 then True
      else
        case (balanceUsdc, allowanceUsdc) of
          (Some bal, Some allow) \<Rightarrow>
            if bal < 1 / 2 then False
            else if bal + 1 / 10 ^ 9 < requiredUsdc then False
            else if allow + 1 / 10 ^ 9 < requiredUsdc then False
            else True
        | _ \<Rightarrow> False)"

text \<open>
  Live execution.  \<open>createAndPostOrder(order, undefined, OrderType.FOK, false)\<close> belongs to
  the exchange client: a fill-or-kill order is filled in full or not at all, or the call
  throws.  What the exchange does with each order is an input of the model; the holdings
  are the exchange's record of the account.
\<close>

datatype fokOutcome = Filled | Killed | PostThrows

record holdings =
  h_up :: rat
  h_down :: rat

record liveEnv =
  le_PAPER_TRADING :: bool
  le_ENABLE_LIVE_ORDERS :: bool
  le_upTokenId :: "string option"
  le_downTokenId :: "string option"
  le_clobCreds :: bool
  le_balanceUsdc :: "rat option"
  le_allowanceUsdc :: "rat option"

datatype liveResult = LiveNotRun | LiveThrew | LiveBlocked | LivePosted fokOutcome fokOutcome

definition fokBuy :: "fokOutcome \<Rightarrow> rat \<Rightarrow> rat \<Rightarrow> rat" where
  "fokBuy outcome orderSize held = (case outcome of Filled \<Rightarrow> held + orderSize | _ \<Rightarrow> held)"

definition executeLiveStraddle ::
  "liveEnv \<Rightarrow> straddle \<Rightarrow> fokOutcome \<Rightarrow> fokOutcome \<Rightarrow> holdings \<Rightarrow> liveResult \<times> holdings" where
  "executeLiveStraddle env sd upOutcome downOutcome held =
     (if le_PAPER_TRADING env then (LiveNotRun, held)
      else if \<not> le_ENABLE_LIVE_ORDERS env then (LiveNotRun, held)
      else if \<not> truthy (le_upTokenId env) \<or> \<not> truthy (le_downTokenId env) then (LiveThrew, held)
      else if \<not> le_clobCreds env then (LiveThrew, held)
      else if \<not> liveCanSpendUsdc (le_balanceUsdc env) (le_allowanceUsdc env) (sd_cost sd)
        then (LiveBlocked, held)
      else if upOutcome = PostThrows then (LiveThrew, held)
      else
        let held1 = held \<lparr> h_up := fokBuy upOutcome (of_int (sd_shares sd)) (h_up held) \<rparr> in
        if downOutcome = PostThrows then (LiveThrew, held1)
        else
          (LivePosted upOutcome downOutcome,
           held1 \<lparr> h_down := fokBuy downOutcome (of_int (sd_shares sd)) (h_down held1) \<rparr>))"

section \<open>StrategyLag (src/modes/lag.js)\<close>

definition LAG_FEED_DISAGREE_USD_HARD :: rat where "LAG_FEED_DISAGREE_USD_HARD = 150"

definition LAG_BINANCE_MAX_AGE_MS :: int where "LAG_BINANCE_MAX_AGE_MS = 5000"

definition LAG_CHAINLINK_MAX_AGE_MS :: int where "LAG_CHAINLINK_MAX_AGE_MS = 180000"

definition LAG_HISTORY_SEC :: int where "LAG_HISTORY_SEC = 120"

definition LAG_ENTRY_CONFIRM_TICKS :: int where "LAG_ENTRY_CONFIRM_TICKS = 2"

definition LAG_COOLDOWN_MS :: int where "LAG_COOLDOWN_MS = 1500"

definition LAG_STOP_COOLDOWN_MS :: int where "LAG_STOP_COOLDOWN_MS = 15000"

definition LAG_MIN_PROFIT_CENTS :: rat where "LAG_MIN_PROFIT_CENTS = 1"

definition LAG_TP_MIN_CENTS :: rat where "LAG_TP_MIN_CENTS = 1"

definition LAG_TP_MAX_CENTS :: rat where "LAG_TP_MAX_CENTS = 10"

definition LAG_TP_CENTS_PER_USD :: rat where "LAG_TP_CENTS_PER_USD = 1 / 20"

definition LAG_STOP_LOSS_PCT :: rat where "LAG_STOP_LOSS_PCT = 1 / 100"

definition LAG_SL_MIN_CENTS :: rat where "LAG_SL_MIN_CENTS = 1"

definition LAG_SL_MAX_CENTS :: rat where "LAG_SL_MAX_CENTS = 3"

definition LAG_SL_RISK_FRAC :: rat where "LAG_SL_RISK_FRAC = 1 / 2"

definition LAG_STOP_GRACE_MS :: int where "LAG_STOP_GRACE_MS = 3000"

definition LAG_STOP_CONFIRM_TICKS :: int where "LAG_STOP_CONFIRM_TICKS = 2"

datatype rtdsSource = BinanceWs | Chainlink | Auto

record feed =
  fd_price :: "rat option"
  fd_exchangeTimestampMs :: "int option"
  fd_lastUpdated :: "int option"

record lagCtx =
  lx_market :: marketInfo
  lx_PAPER_TRADING :: bool
  lx_ENABLE_LIVE_ORDERS :: bool
  lx_RTDS_SOURCE :: rtdsSource
  lx_spotExchangeTimestampMs :: "int option"
  lx_binance_ws :: "feed option"
  lx_chainlink :: "feed option"
  lx_up :: "bookSummary option"
  lx_down :: "bookSummary option"
  lx_upAsksLevels :: "level list"
  lx_upBidsLevels :: "level list"
  lx_downAsksLevels :: "level list"
  lx_downBidsLevels :: "level list"
  lx_upTokenId :: "string option"
  lx_downTokenId :: "string option"
  lx_upFeeBps :: "rat option"
  lx_downFeeBps :: "rat option"

record lagPosition =
  lpo_side :: side
  lpo_tokenId :: string
  lpo_shares :: rat
  lpo_entryPrice :: rat
  lpo_sellPrice :: rat
  lpo_stopPrice :: rat
  lpo_feeBps :: rat
  lpo_entryCostUsdc :: "rat option"
  lpo_endEpochSec :: "rat option"
  lpo_marketId :: "string option"
  lpo_referencePrice :: "rat option"
  lpo_conditionId :: "string option"
  lpo_stopHits :: int
  lpo_openedAt :: int
  lpo_mismatchLogged :: bool

record lagPending =
  lp_side :: side
  lp_px :: rat
  lp_hits :: int
  lp_firstAt :: int

record lagState =
  lag_signal :: "string option"
  lag_suggestedSide :: "side option"
  lag_suggestedSpend :: "rat option"
  lag_suggestedShares :: "rat option"
  lag_suggestedLimitPrice :: "rat option"
  lag_spotDeltaUsd :: "rat option"
  lag_sideMarketMove01 :: "rat option"
  lag_feedDisagreeUsd :: "rat option"
  lag_lastEvalAt :: "int option"
  lag_spotHistory :: "(int \<times> rat) list"
  lag_open :: "lagPosition option"
  lag_pending :: "lagPending option"
  lag_lastTradeAt :: "int option"
  lag_lastStopAt :: "int option"
  lag_lastSignalAt :: "int option"

text \<open>
  \<open>evalLagSignal\<close> up to its two early exits (feed disagreement, end of interval).  The rest
  of the function (the signal computation that follows them in the source) is the
  parameter \<open>evalRest\<close>: every statement below holds whatever it computes.
\<close>

definition pushSpotSample :: "lagCtx \<Rightarrow> rat \<Rightarrow> lagState \<Rightarrow> lagState" where
  "pushSpotSample ctx spot st =
     (let t = (case lx_spotExchangeTimestampMs ctx of Some ts \<Rightarrow> ts | None \<Rightarrow> mi_nowMs (lx_market ctx)) in
      if \<not> spot > 0 then st
      else
        let hist = lag_spotHistory st in
        if hist \<noteq> [] \<and> \<bar>t - fst (last hist)\<bar> < 250 then st
        else
          let hist1 = hist @ [(t, spot)];
              cutoff = t - max 5 LAG_HISTORY_SEC * 1000
          in st \<lparr> lag_spotHistory := dropWhile (\<lambda>s. fst s < cutoff) hist1 \<rparr>)"

definition feedAgeMs :: "int \<Rightarrow> feed option \<Rightarrow> int option" where
  "feedAgeMs nowMs f =
     (case f of
        None \<Rightarrow> None
      | Some fd \<Rightarrow>
          (case (case fd_exchangeTimestampMs fd of Some ts \<Rightarrow> Some ts | None \<Rightarrow> fd_lastUpdated fd) of
             None \<Rightarrow> None
           | Some ts \<Rightarrow> Some (max 0 (nowMs - ts))))"

definition feedPrice :: "feed option \<Rightarrow> rat option" where
  "feedPrice f = (case f of None \<Rightarrow> None | Some fd \<Rightarrow> fd_price fd)"

definition feedDisagreementUsd :: "lagCtx \<Rightarrow> rat option" where
  "feedDisagreementUsd ctx =
     (if lx_RTDS_SOURCE ctx \<noteq> Auto then None
      else
        case (feedPrice (lx_binance_ws ctx), feedPrice (lx_chainlink ctx)) of
          (Some b, Some c) \<Rightarrow>
            if \<not> b > 0 \<or> \<not> c > 0 then None
            else
              (case (feedAgeMs (mi_nowMs (lx_market ctx)) (lx_binance_ws ctx),
                     feedAgeMs (mi_nowMs (lx_market ctx)) (lx_chainlink ctx)) of
                 (Some bAge, Some cAge) \<Rightarrow>
                   if bAge > LAG_BINANCE_MAX_AGE_MS then None
                   else if cAge > LAG_CHAINLINK_MAX_AGE_MS then None
                   else Some \<bar>b - c\<bar>
               | _ \<Rightarrow> None)
        | _ \<Rightarrow> None)"

definition marksPositive :: "lagCtx \<Rightarrow> bool" where
  "marksPositive ctx =
     (case (lx_up ctx, lx_down ctx) of
        (Some up, Some down) \<Rightarrow> bs_mark up > 0 \<and> bs_mark down > 0
      | _ \<Rightarrow> False)"

definition hardDisagreement :: "rat option \<Rightarrow> bool" where
  "hardDisagreement disagree =
     (case disagree of None \<Rightarrow> False | Some d \<Rightarrow> d > LAG_FEED_DISAGREE_USD_HARD)"

definition nearIntervalEnd :: "marketInfo \<Rightarrow> bool" where
  "nearIntervalEnd mi =
     (case mi_endEpochSec mi of
        None \<Rightarrow> False
      | Some e \<Rightarrow> e - of_int (mi_nowMs mi) / 1000 \<le> 60)"

definition evalLagSignal :: "(lagCtx \<Rightarrow> lagState \<Rightarrow> lagState) \<Rightarrow> lagCtx \<Rightarrow> lagState \<Rightarrow> lagState" where
  "evalLagSignal evalRest ctx st =
     (case mi_underlyingPrice (lx_market ctx) of
        None \<Rightarrow> st
      | Some spot \<Rightarrow>
          if \<not> spot > 0 then st
          else if \<not> marksPositive ctx then st
          else
            let st1 = pushSpotSample ctx spot st;
                disagree = feedDisagreementUsd ctx;
                st2 = st1 \<lparr> lag_feedDisagreeUsd := disagree \<rparr>
            in
              if hardDisagreement disagree then
                st2 \<lparr> lag_lastEvalAt := Some (mi_nowMs (lx_market ctx)),
                      lag_signal := Some ''LAG'',
                      lag_suggestedSide := None,
                      lag_suggestedSpend := None,
                      lag_suggestedShares := None,
                      lag_suggestedLimitPrice := None,
                      lag_spotDeltaUsd := None,
                      lag_sideMarketMove01 := None \<rparr>
              else if nearIntervalEnd (lx_market ctx) then
                st2 \<lparr> lag_lastEvalAt := Some (mi_nowMs (lx_market ctx)),
                      lag_signal := None,
                      lag_suggestedSide := None,
                      lag_suggestedSpend := None,
                      lag_suggestedShares := None,
                      lag_suggestedLimitPrice := None \<rparr>
              else evalRest ctx (st2 \<lparr> lag_lastEvalAt := Some (mi_nowMs (lx_market ctx)) \<rparr>))"

definition sideTokenId :: "lagCtx \<Rightarrow> side \<Rightarrow> string option" where
  "sideTokenId ctx s = (case s of Up \<Rightarrow> lx_upTokenId ctx | Down \<Rightarrow> lx_downTokenId ctx)"

definition sideFeeBps :: "lagCtx \<Rightarrow> side \<Rightarrow> rat option" where
  "sideFeeBps ctx s = (case s of Up \<Rightarrow> lx_upFeeBps ctx | Down \<Rightarrow> lx_downFeeBps ctx)"

definition sideSummary :: "lagCtx \<Rightarrow> side \<Rightarrow> bookSummary option" where
  "sideSummary ctx s = (case s of Up \<Rightarrow> lx_up ctx | Down \<Rightarrow> lx_down ctx)"

definition sideAsks :: "lagCtx \<Rightarrow> side \<Rightarrow> level list" where
  "sideAsks ctx s = (case s of Up \<Rightarrow> lx_upAsksLevels ctx | Down \<Rightarrow> lx_downAsksLevels ctx)"

definition sideBids :: "lagCtx \<Rightarrow> side \<Rightarrow> level list" where
  "sideBids ctx s = (case s of Up \<Rightarrow> lx_upBidsLevels ctx | Down \<Rightarrow> lx_downBidsLevels ctx)"

text \<open>
  \<open>maybeExitLag\<close> and \<open>maybeExecuteLag\<close>.  In live trading the order goes to the exchange and
  \<open>confirmFokFilled\<close> reads the answer; whether the order was confirmed filled is the
  boolean input (\<open>False\<close> also stands for a blocked, rejected or failed order).
\<close>

definition maybeExitLag :: "lagCtx \<Rightarrow> bool \<Rightarrow> rat \<times> lagState \<Rightarrow> rat \<times> lagState" where
  "maybeExitLag ctx liveExitFilled bst =
     (case bst of (paperBalance, st) \<Rightarrow>
      case lag_open st of
        None \<Rightarrow> bst
      | Some opn \<Rightarrow>
          if truthy (sideTokenId ctx (lpo_side opn)) \<and> lpo_tokenId opn \<noteq> []
             \<and> sideTokenId ctx (lpo_side opn) \<noteq> Some (lpo_tokenId opn)
          then (paperBalance, st \<lparr> lag_open := Some (opn \<lparr> lpo_mismatchLogged := True \<rparr>) \<rparr>)
          else
            case sideSummary ctx (lpo_side opn) of
              None \<Rightarrow> bst
            | Some book \<Rightarrow>
                let bestBid = bs_bestBid book; mark = bs_mark book in
                if \<not> bestBid > 0 then bst
                else
                  let tpTriggered = (bestBid \<ge> lpo_sellPrice opn);
                      stopRef = (if mark > 0 then mark else bestBid);
                      stopTriggeredRaw = (stopRef \<le> lpo_stopPrice opn);
                      stopArmed = (mi_nowMs (lx_market ctx) - lpo_openedAt opn \<ge> LAG_STOP_GRACE_MS);
                      confirmTicks = max 1 LAG_STOP_CONFIRM_TICKS;
                      opn1 = (if stopTriggeredRaw \<and> stopArmed
                               then opn \<lparr> lpo_stopHits := lpo_stopHits opn + 1 \<rparr>
                               else opn \<lparr> lpo_stopHits := 0 \<rparr>);
                      st1 = st \<lparr> lag_open := Some opn1 \<rparr>;
                      stopTriggered = (stopTriggeredRaw \<and> stopArmed \<and> lpo_stopHits opn1 \<ge> confirmTicks)
                  in
                    if \<not> tpTriggered \<and> \<not> stopTriggered then (paperBalance, st1)
                    else
                      let minExit = (if tpTriggered then lpo_sellPrice opn else 0) in
                      case proceedsFromSellingSharesToBids (sideBids ctx (lpo_side opn))
                             (lpo_shares opn) (Some (lpo_feeBps opn)) minExit of
                        None \<Rightarrow> (paperBalance, st1)
                      | Some est \<Rightarrow>
                          let closed = (if \<not> tpTriggered
                                        then st1 \<lparr> lag_lastStopAt := Some (mi_nowMs (lx_market ctx)),
                                                   lag_open := None \<rparr>
                                        else st1 \<lparr> lag_open := None \<rparr>)
                          in
                            if lx_PAPER_TRADING ctx
                            then (executePaperDelta paperBalance (sf_proceeds est), closed)
                            else if \<not> lx_ENABLE_LIVE_ORDERS ctx then (paperBalance, st1)
                            else if liveExitFilled then (paperBalance, closed)
                            else (paperBalance, st1))"

definition maxAchievableProfitCentsAtCap :: "rat \<Rightarrow> rat \<Rightarrow> rat \<Rightarrow> rat" where
  "maxAchievableProfitCentsAtCap entryLimitPrice01 feeBps capPrice01 =
     (capPrice01 * (1 - feeBps / 10000) - entryLimitPrice01 * (1 + feeBps / 10000)) * 100"

definition profitCentsForEntry :: "rat \<Rightarrow> rat option \<Rightarrow> rat option \<Rightarrow> rat" where
  "profitCentsForEntry entryPrice01 spotDeltaUsd sideMarketMove01 =
     (let minProfit = (if LAG_MIN_PROFIT_CENTS > 0 then LAG_MIN_PROFIT_CENTS else 0);
          centsPerUsd = (if LAG_TP_CENTS_PER_USD > 0 then LAG_TP_CENTS_PER_USD else 0);
          minC = LAG_TP_MIN_CENTS;
          maxC = LAG_TP_MAX_CENTS;
          spotMoveUsd = (case spotDeltaUsd of Some d \<Rightarrow> \<bar>d\<bar> | None \<Rightarrow> 0);
          forecastCents = spotMoveUsd * centsPerUsd;
          marketMoveCents = (case sideMarketMove01 of
                               Some m \<Rightarrow> if m > 0 then m * 100 else 0
                             | None \<Rightarrow> 0);
          lagCents = max 0 (forecastCents - marketMoveCents)
      in max minProfit (max minC (min maxC lagCents)))"

definition computeTargetSellPrice01 :: "rat \<Rightarrow> rat \<Rightarrow> rat \<Rightarrow> rat \<Rightarrow> rat option" where
  "computeTargetSellPrice01 entryLimitPrice01 profitCents buyFeeBps sellFeeBps =
     (let desiredProfitUsdcPerShare = profitCents / 100;
          buyMult = 1 + buyFeeBps / 10000;
          sellMult = 1 - sellFeeBps / 10000
      in
        if \<not> sellMult > 0 then None
        else
          let numer = entryLimitPrice01 * buyMult + desiredProfitUsdcPerShare;
              sRaw = numer / sellMult
          in
            if sRaw \<ge> 99 / 100 then None
            else
              let s = min (99 / 100) (max (1 / 1000) sRaw) in
              if \<not> s > entryLimitPrice01 then None else Some s)"

definition stopLossCentsForEntry :: "rat \<Rightarrow> rat" where
  "stopLossCentsForEntry desiredProfitCents =
     max LAG_SL_MIN_CENTS (min LAG_SL_MAX_CENTS (desiredProfitCents * LAG_SL_RISK_FRAC))"

definition computeStopPrice01 :: "rat \<Rightarrow> rat \<Rightarrow> rat option" where
  "computeStopPrice01 entryPrice01 desiredProfitCents =
     (if \<not> entryPrice01 > 0 then None
      else
        let stopPct = entryPrice01 * (1 - LAG_STOP_LOSS_PCT);
            lossCents = stopLossCentsForEntry desiredProfitCents;
            stopDyn = entryPrice01 - lossCents / 100
        in Some (min (99 / 100) (max (1 / 1000) (max stopPct stopDyn))))"

definition lagPaperEntry ::
  "lagCtx \<Rightarrow> side \<Rightarrow> string \<Rightarrow> rat \<Rightarrow> rat \<Rightarrow> rat \<Rightarrow> rat \<Rightarrow> rat \<Rightarrow> rat \<times> lagState \<Rightarrow> rat \<times> lagState" where
  "lagPaperEntry ctx s tokenId shares limitPrice targetSell stopPrice feeBps bst =
     (case bst of (paperBalance, st) \<Rightarrow>
      case costToBuySharesFromAsks (sideAsks ctx s) shares (Some feeBps) of
        None \<Rightarrow> bst
      | Some fill \<Rightarrow>
          if bf_cost fill > paperBalance then bst
          else
            (executePaperDelta paperBalance (- bf_cost fill),
             st \<lparr> lag_open := Some
                    \<lparr> lpo_side = s, lpo_tokenId = tokenId, lpo_shares = shares,
                      lpo_entryPrice = limitPrice, lpo_sellPrice = targetSell,
                      lpo_stopPrice = stopPrice, lpo_feeBps = feeBps,
                      lpo_entryCostUsdc = Some (bf_cost fill),
                      lpo_endEpochSec = mi_endEpochSec (lx_market ctx),
                      lpo_marketId = mi_marketId (lx_market ctx),
                      lpo_referencePrice = mi_referencePrice (lx_market ctx),
                      lpo_conditionId = mi_conditionId (lx_market ctx),
                      lpo_stopHits = 0,
                      lpo_openedAt = mi_nowMs (lx_market ctx),
                      lpo_mismatchLogged = False \<rparr>,
                  lag_lastTradeAt := Some (mi_nowMs (lx_market ctx)) \<rparr>))"

definition lagLiveEntry ::
  "lagCtx \<Rightarrow> bool \<Rightarrow> side \<Rightarrow> string \<Rightarrow> rat \<Rightarrow> rat \<Rightarrow> rat \<Rightarrow> rat \<Rightarrow> rat \<Rightarrow> rat \<times> lagState \<Rightarrow> rat \<times> lagState" where
  "lagLiveEntry ctx liveEntryFilled s tokenId shares limitPrice targetSell stopPrice feeBps bst =
     (case bst of (paperBalance, st) \<Rightarrow>
      if \<not> lx_ENABLE_LIVE_ORDERS ctx then bst
      else if \<not> liveEntryFilled then bst
      else
        (paperBalance,
         st \<lparr> lag_open := Some
                \<lparr> lpo_side = s, lpo_tokenId = tokenId, lpo_shares = shares,
                  lpo_entryPrice = limitPrice, lpo_sellPrice = targetSell,
                  lpo_stopPrice = stopPrice, lpo_feeBps = feeBps,
                  lpo_entryCostUsdc = None,
                  lpo_endEpochSec = mi_endEpochSec (lx_market ctx),
                  lpo_marketId = mi_marketId (lx_market ctx),
                  lpo_referencePrice = mi_referencePrice (lx_market ctx),
                  lpo_conditionId = mi_conditionId (lx_market ctx),
                  lpo_stopHits = 0,
                  lpo_openedAt = mi_nowMs (lx_market ctx),
                  lpo_mismatchLogged = False \<rparr>,
              lag_lastTradeAt := Some (mi_nowMs (lx_market ctx)) \<rparr>))"

definition matchingPending :: "lagPending option \<Rightarrow> side \<Rightarrow> rat \<Rightarrow> lagPending option" where
  "matchingPending p side0 px0 =
     (case p of
        None \<Rightarrow> None
      | Some pd \<Rightarrow>
          if lp_side pd \<noteq> side0 \<or> \<bar>lp_px pd - px0\<bar> > 1 / 10 ^ 9 then None else Some pd)"

definition maybeExecuteLag :: "lagCtx \<Rightarrow> bool \<Rightarrow> rat \<times> lagState \<Rightarrow> rat \<times> lagState" where
  "maybeExecuteLag ctx liveEntryFilled bst =
     (case bst of (paperBalance, st) \<Rightarrow>
      if lag_open st \<noteq> None then bst
      else if lag_signal st \<noteq> Some ''LAG'' then bst
      else
        let confirmN = max 1 LAG_ENTRY_CONFIRM_TICKS in
        case (lag_suggestedSide st, lag_suggestedLimitPrice st) of
          (Some side0, Some px0) \<Rightarrow>
            if \<not> px0 > 0 then bst
            else
             (case matchingPending (lag_pending st) side0 px0 of
                None \<Rightarrow>
                  (paperBalance,
                   st \<lparr> lag_pending := Some \<lparr> lp_side = side0, lp_px = px0, lp_hits = 1,
                                               lp_firstAt = mi_nowMs (lx_market ctx) \<rparr> \<rparr>)
              | Some p \<Rightarrow>
              let p1 = p \<lparr> lp_hits := lp_hits p + 1 \<rparr>;
                  st1 = st \<lparr> lag_pending := Some p1 \<rparr>;
                  now = mi_nowMs (lx_market ctx)
              in
                if lp_hits p1 < confirmN then (paperBalance, st1)
                else if nearIntervalEnd (lx_market ctx) then (paperBalance, st1)
                else if now - (case lag_lastTradeAt st1 of Some t \<Rightarrow> t | None \<Rightarrow> 0) < LAG_COOLDOWN_MS
                  then (paperBalance, st1)
                else if (case lag_lastStopAt st1 of
                           Some t \<Rightarrow> t \<noteq> 0 \<and> now - t < LAG_STOP_COOLDOWN_MS
                         | None \<Rightarrow> False)
                  then (paperBalance, st1)
                else
                  case lag_suggestedShares st1 of
                    None \<Rightarrow> (paperBalance, st1)
                  | Some shares \<Rightarrow>
                      if \<not> shares > 0 \<or> \<not> px0 > 0 then (paperBalance, st1)
                      else
                       case sideTokenId ctx side0 of
                         None \<Rightarrow> (paperBalance, st1)
                       | Some tokenId \<Rightarrow>
                        if tokenId = [] then (paperBalance, st1)
                        else
                        case sideFeeBps ctx side0 of
                          None \<Rightarrow> (paperBalance, st1)
                        | Some feeBps \<Rightarrow>
                            if \<not> px0 < 99 / 100 then (paperBalance, st1)
                            else
                              let maxProfitCents = maxAchievableProfitCentsAtCap px0 feeBps (99 / 100);
                                  desiredProfitCents = profitCentsForEntry px0 (lag_spotDeltaUsd st1)
                                                         (lag_sideMarketMove01 st1)
                              in
                                if maxProfitCents + 1 / 10 ^ 6 < desiredProfitCents then (paperBalance, st1)
                                else
                                  case computeTargetSellPrice01 px0 desiredProfitCents feeBps feeBps of
                                    None \<Rightarrow> (paperBalance, st1)
                                  | Some targetSell \<Rightarrow>
                                      if \<not> targetSell > 0 then (paperBalance, st1)
                                      else
                                        case computeStopPrice01 px0 desiredProfitCents of
                                          None \<Rightarrow> (paperBalance, st1)
                                        | Some stopPrice \<Rightarrow>
                                            if \<not> stopPrice > 0 then (paperBalance, st1)
                                            else
                                              let st2 = st1 \<lparr> lag_lastSignalAt := Some now \<rparr>
                                              in
                                                if lx_PAPER_TRADING ctx
                                                then lagPaperEntry ctx side0 tokenId shares px0
                                                       targetSell stopPrice feeBps (paperBalance, st2)
                                                else lagLiveEntry ctx liveEntryFilled side0 tokenId shares
                                                       px0 targetSell stopPrice feeBps (paperBalance, st2))
        | _ \<Rightarrow> bst)"

definition lagOnOrderbooks ::
  "(lagCtx \<Rightarrow> lagState \<Rightarrow> lagState) \<Rightarrow> lagCtx \<Rightarrow> bool \<Rightarrow> bool \<Rightarrow> rat \<times> lagState \<Rightarrow> rat \<times> lagState" where
  "lagOnOrderbooks evalRest ctx liveExitFilled liveEntryFilled bst =
     (case bst of (paperBalance, st) \<Rightarrow>
        maybeExecuteLag ctx liveEntryFilled
          (maybeExitLag ctx liveExitFilled (paperBalance, evalLagSignal evalRest ctx st)))"

section \<open>StrategyCertainty (src/unnamed/part_001)\<close>

definition ENTRY_TIME_WINDOW_SEC :: rat where "ENTRY_TIME_WINDOW_SEC = 600"

definition ENTRY_PRICE_MIN :: rat where "ENTRY_PRICE_MIN = 80 / 100"

definition ENTRY_PRICE_MAX :: rat where "ENTRY_PRICE_MAX = 82 / 100"

definition REENTRY_PRICE_MIN :: rat where "REENTRY_PRICE_MIN = 75 / 100"

definition REENTRY_PRICE_MAX :: rat where "REENTRY_PRICE_MAX = 77 / 100"

definition STOP_LOSS_PRICE :: rat where "STOP_LOSS_PRICE = 75 / 100"

definition STOP_LOSS_BUFFER :: rat where "STOP_LOSS_BUFFER = 15 / 1000"

definition MAX_SPREAD :: rat where "MAX_SPREAD = 2 / 100"

definition MIN_SHARES :: rat where "MIN_SHARES = 1"

definition ORDER_GAS_USDC :: rat where "ORDER_GAS_USDC = 0"

definition TAKE_PROFIT_MIN :: rat where "TAKE_PROFIT_MIN = 96 / 100"

definition TAKE_PROFIT_MAX :: rat where "TAKE_PROFIT_MAX = 99 / 100"

subsection \<open>Sizing and selling against the book\<close>

text \<open>\<open>maxSharesForBudgetReal\<close> and \<open>proceedsFromSellingSharesToBidsReal\<close>.\<close>

function searchSharesReal ::
  "level list \<Rightarrow> rat \<Rightarrow> rat option \<Rightarrow> rat \<Rightarrow> int \<Rightarrow> realFill option \<Rightarrow> realFill option" where
  "searchSharesReal asks budgetUsdc maxPrice01 lo hi bestFill =
     (if lo \<le> of_int hi then
        let mid = \<lfloor>(lo + of_int hi) / 2\<rfloor> in
        case costToBuySharesFromAsksReal asks (of_int mid) maxPrice01 of
          None \<Rightarrow> searchSharesReal asks budgetUsdc maxPrice01 lo (mid - 1) bestFill
        | Some fill \<Rightarrow>
            if rf_cost fill \<le> budgetUsdc + 1 / 10 ^ 9
            then searchSharesReal asks budgetUsdc maxPrice01 (of_int mid + 1) hi (Some fill)
            else searchSharesReal asks budgetUsdc maxPrice01 lo (mid - 1) bestFill
      else bestFill)"
  by pat_completeness auto

termination searchSharesReal
proof -
  have hi_step: "searchMeasure lo (\<lfloor>(lo + of_int hi) / 2\<rfloor> - 1) < searchMeasure lo hi"
    if "lo \<le> of_int hi" for lo hi
  proof -
    have "(lo + of_int hi) / 2 \<le> of_int hi" using that by simp
    then have m: "\<lfloor>(lo + of_int hi) / 2\<rfloor> \<le> hi" by (simp add: floor_le_iff)
    have c: "\<lceil>lo\<rceil> \<le> hi" using that by (simp add: ceiling_le_iff)
    show ?thesis unfolding searchMeasure_def using m c by (auto split: if_splits)
  qed
  have lo_step: "searchMeasure (of_int \<lfloor>(lo + of_int hi) / 2\<rfloor> + 1) hi < searchMeasure lo hi"
    if "lo \<le> of_int hi" for lo hi
  proof -
    have "lo \<le> (lo + of_int hi) / 2" using that by simp
    then have m: "\<lfloor>lo\<rfloor> \<le> \<lfloor>(lo + of_int hi) / 2\<rfloor>" by (rule floor_mono)
    have c: "\<lceil>lo\<rceil> \<le> hi" using that by (simp add: ceiling_le_iff)
    have fc: "\<lceil>lo\<rceil> = (if of_int \<lfloor>lo\<rfloor> = lo then \<lfloor>lo\<rfloor> else \<lfloor>lo\<rfloor> + 1)"
      by (auto simp add: ceiling_altdef)
    have i: "of_int \<lfloor>of_int \<lfloor>(lo + of_int hi) / 2\<rfloor> + (1::rat)\<rfloor>
        = of_int \<lfloor>(lo + of_int hi) / 2\<rfloor> + (1::rat)"
      by simp
    have ce: "\<lceil>of_int \<lfloor>(lo + of_int hi) / 2\<rfloor> + (1::rat)\<rceil> = \<lfloor>(lo + of_int hi) / 2\<rfloor> + 1"
      by simp
    show ?thesis unfolding searchMeasure_def i ce using m c fc by (auto split: if_splits)
  qed
  show ?thesis
    by (relation "measure (\<lambda>(asks, budgetUsdc, maxPrice01, lo, hi, bestFill). searchMeasure lo hi)")
       (auto simp: hi_step lo_step)
qed

declare searchSharesReal.simps [simp del]

definition maxSharesForBudgetReal ::
  "level list \<Rightarrow> rat \<Rightarrow> rat option \<Rightarrow> rat \<Rightarrow> realFill option" where
  "maxSharesForBudgetReal asks budgetUsdc maxPrice01 minShares =
     (case asks of
        [] \<Rightarrow> None
      | l0 # _ \<Rightarrow>
          if \<not> budgetUsdc > 0 then None
          else
            let totalSize = \<lfloor>sumSizes asks\<rfloor> in
            if of_int totalSize < minShares then None
            else
              let best = price l0 in
              if \<not> best > 0 then None
              else if aboveMax maxPrice01 best then None
              else
                let approxFeeRate = (1 - best) * POLYMARKET_FEE_RATE;
                    approxPerShare = best * (1 + approxFeeRate);
                    budgetBound = (if approxPerShare > 0 then \<lfloor>budgetUsdc / approxPerShare\<rfloor> else 0);
                    hi = max 0 (min totalSize budgetBound)
                in
                  if of_int hi < minShares then None
                  else searchSharesReal asks budgetUsdc maxPrice01 minShares hi None)"

record bidSweep =
  bw_remaining :: rat
  bw_gross :: rat
  bw_minFilled :: "rat option"
  bw_weightedPriceSum :: rat
  bw_filledShares :: rat

definition belowMin :: "rat option \<Rightarrow> rat \<Rightarrow> bool" where
  "belowMin minPrice01 p = (case minPrice01 of None \<Rightarrow> False | Some mp \<Rightarrow> p < mp - PRICE_EPS)"

fun sweepBidsReal :: "level list \<Rightarrow> rat option \<Rightarrow> bidSweep \<Rightarrow> bidSweep" where
  "sweepBidsReal [] minPrice01 st = st"
| "sweepBidsReal (l # ls) minPrice01 st =
     (if \<not> bw_remaining st > 0 then st
      else if \<not> size_l l > 0 then sweepBidsReal ls minPrice01 st
      else if belowMin minPrice01 (price l) then st
      else
        let take = min (bw_remaining st) (size_l l) in
        sweepBidsReal ls minPrice01
          \<lparr> bw_remaining = bw_remaining st - take,
            bw_gross = bw_gross st + take * price l,
            bw_minFilled = Some (price l),
            bw_weightedPriceSum = bw_weightedPriceSum st + take * price l,
            bw_filledShares = bw_filledShares st + take \<rparr>)"

record realSellFill =
  rs_shares :: rat
  rs_gross :: rat
  rs_fee :: rat
  rs_proceeds :: rat
  rs_minFilledPrice :: "rat option"
  rs_avgPrice :: "rat option"

definition proceedsFromSellingSharesToBidsReal ::
  "level list \<Rightarrow> rat \<Rightarrow> rat option \<Rightarrow> realSellFill option" where
  "proceedsFromSellingSharesToBidsReal bids shares minPrice01 =
     (if bids = [] then None
      else if \<not> shares > 0 then None
      else
        let st = sweepBidsReal bids minPrice01
                   \<lparr> bw_remaining = shares, bw_gross = 0, bw_minFilled = None,
                     bw_weightedPriceSum = 0, bw_filledShares = 0 \<rparr>
        in
          if bw_remaining st > 1 / 10 ^ 9 then None
          else
            let avgPrice = (if bw_filledShares st > 0
                            then Some (bw_weightedPriceSum st / bw_filledShares st)
                            else bw_minFilled st);
                fee = calcPolymarketFee (bw_gross st) avgPrice;
                proceeds = bw_gross st - fee
            in Some \<lparr> rs_shares = shares, rs_gross = bw_gross st, rs_fee = fee,
                      rs_proceeds = proceeds, rs_minFilledPrice = bw_minFilled st,
                      rs_avgPrice = avgPrice \<rparr>)"

subsection \<open>State of the mode\<close>

datatype exitType = StopLoss | TakeProfit

datatype tradeStatus = OPEN | PROFIT | STOPPED

record candle =
  c_minute :: int
  c_open :: rat
  c_high :: rat
  c_low :: rat
  c_close :: rat
  c_startTime :: int

record candleData =
  cd_current :: "candle option"
  cd_history :: "candle list"

record intervalState =
  is_marketId :: "string option"
  is_lastExitType :: "exitType option"
  is_entryCount :: int
  is_startBtcPrice :: "rat option"
  is_lastStopLossExitPrice :: "rat option"
  is_requireReentryUntilResolved :: bool

record certPosition =
  cp_tradeId :: int
  cp_side :: side
  cp_tokenId :: "string option"
  cp_shares :: rat
  cp_entryCostUsdc :: rat
  cp_entryNotionalUsdc :: "rat option"
  cp_entryFeeUsdc :: "rat option"
  cp_entryGasUsdc :: "rat option"
  cp_entryLimitPrice :: rat
  cp_openedAt :: int
  cp_endEpochSec :: rat
  cp_marketId :: "string option"
  cp_referencePrice :: "rat option"
  cp_entrySpot :: "rat option"

record trade =
  t_tradeId :: int
  t_entryTime :: int
  t_timeToResolutionSec :: "rat option"
  t_entrySide :: side
  t_entryPrice :: rat
  t_shares :: rat
  t_entryNotionalUsdc :: rat
  t_takerFeesPaidUsdc :: rat
  t_gasPaidUsdc :: rat
  t_capitalBeforeUsdc :: "rat option"
  t_capitalAfterUsdc :: "rat option"
  t_status :: tradeStatus
  t_exitType :: "exitType option"
  t_exitTime :: "int option"
  t_exitPrice :: "rat option"
  t_exitGrossUsdc :: "rat option"
  t_exitFeeUsdc :: "rat option"
  t_exitProceedsUsdc :: "rat option"
  t_roi :: "rat option"

record certState =
  cs_open :: "certPosition option"
  cs_intervalState :: intervalState
  cs_candlesUp :: candleData
  cs_candlesDown :: candleData
  cs_trades :: "trade list"
  cs_tradeSeq :: int
  cs_intervalStartBtcPrice :: "rat option"

record certCtx =
  cx_market :: marketInfo
  cx_PAPER_TRADING :: bool
  cx_entrySpot :: "rat option"
  cx_collateralBalanceUsdc :: "rat option"
  cx_up :: "bookSummary option"
  cx_down :: "bookSummary option"
  cx_upAsksLevels :: "level list"
  cx_upBidsLevels :: "level list"
  cx_downAsksLevels :: "level list"
  cx_downBidsLevels :: "level list"
  cx_upTokenId :: "string option"
  cx_downTokenId :: "string option"
  cx_ENABLE_LIVE_ORDERS :: bool
  cx_clobCreds :: bool

definition timeRemainingSec :: "marketInfo \<Rightarrow> rat option" where
  "timeRemainingSec mi =
     (case mi_endEpochSec mi of
        None \<Rightarrow> None
      | Some e \<Rightarrow> Some (max 0 (e - of_int (nowSec mi))))"

definition bookSummaryOf :: "certCtx \<Rightarrow> side \<Rightarrow> bookSummary option" where
  "bookSummaryOf ctx s = (case s of Up \<Rightarrow> cx_up ctx | Down \<Rightarrow> cx_down ctx)"

definition bookAsksOf :: "certCtx \<Rightarrow> side \<Rightarrow> level list" where
  "bookAsksOf ctx s = (case s of Up \<Rightarrow> cx_upAsksLevels ctx | Down \<Rightarrow> cx_downAsksLevels ctx)"

definition candlesOf :: "certState \<Rightarrow> side \<Rightarrow> candleData" where
  "candlesOf cst s = (case s of Up \<Rightarrow> cs_candlesUp cst | Down \<Rightarrow> cs_candlesDown cst)"

definition spreadOk :: "bookSummary option \<Rightarrow> bool" where
  "spreadOk summary =
     (case summary of
        None \<Rightarrow> False
      | Some b \<Rightarrow>
          if \<not> bs_bestAsk b > 0 \<or> \<not> bs_bestBid b > 0 then False
          else bs_bestAsk b - bs_bestBid b \<le> MAX_SPREAD + 1 / 10 ^ 12)"

definition isBullishMomentum :: "certState \<Rightarrow> side \<Rightarrow> bool" where
  "isBullishMomentum cst s =
     (case cd_current (candlesOf cst s) of
        None \<Rightarrow> False
      | Some c \<Rightarrow>
          if c_close c \<ge> c_open c - PRICE_EPS then True
          else
            (case cd_history (candlesOf cst s) of
               [] \<Rightarrow> False
             | h # hs \<Rightarrow> c_close c \<ge> c_close (last (h # hs)) - PRICE_EPS))"

definition isWarmedUp :: "int \<Rightarrow> certState \<Rightarrow> side \<Rightarrow> bool" where
  "isWarmedUp nowMs cst s =
     (case cd_current (candlesOf cst s) of
        None \<Rightarrow> False
      | Some c \<Rightarrow> nowMs - c_startTime c > 5 * 1000)"

record entryRange =
  er_min :: rat
  er_max :: rat

definition defaultEntryRange :: entryRange where
  "defaultEntryRange = \<lparr> er_min = ENTRY_PRICE_MIN, er_max = ENTRY_PRICE_MAX \<rparr>"

definition getCurrentEntryRange :: "certCtx \<Rightarrow> certState \<Rightarrow> entryRange \<times> certState" where
  "getCurrentEntryRange ctx cst =
     (let iState = cs_intervalState cst;
          currentMarketId = mi_marketId (cx_market ctx)
      in
        if \<not> truthy currentMarketId \<or> currentMarketId \<noteq> is_marketId iState then
          let iState1 = iState \<lparr> is_marketId := currentMarketId,
                                 is_lastExitType := None,
                                 is_entryCount := 0,
                                 is_lastStopLossExitPrice := None \<rparr>;
              btcRef = (case cx_entrySpot ctx of
                          Some e \<Rightarrow> if e \<noteq> 0 then Some e else mi_referencePrice (cx_market ctx)
                        | None \<Rightarrow> mi_referencePrice (cx_market ctx))
          in
            (case btcRef of
               Some b \<Rightarrow>
                 (defaultEntryRange,
                  cst \<lparr> cs_intervalState := iState1 \<lparr> is_startBtcPrice := Some b \<rparr>,
                        cs_intervalStartBtcPrice := Some b \<rparr>)
             | None \<Rightarrow> (defaultEntryRange, cst \<lparr> cs_intervalState := iState1 \<rparr>))
        else
          let cst1 = (case is_startBtcPrice iState of
                        Some b \<Rightarrow> cst \<lparr> cs_intervalStartBtcPrice := Some b \<rparr>
                      | None \<Rightarrow> cst)
          in
            if is_lastExitType iState = Some StopLoss then
              (case is_lastStopLossExitPrice iState of
                 Some reentryPrice \<Rightarrow>
                   let buffer = (if STOP_LOSS_BUFFER = 0 then 15 / 1000 else STOP_LOSS_BUFFER) in
                   (\<lparr> er_min = max (1 / 100) (reentryPrice - buffer), er_max = reentryPrice + buffer \<rparr>,
                    cst1)
               | None \<Rightarrow> (\<lparr> er_min = REENTRY_PRICE_MIN, er_max = REENTRY_PRICE_MAX \<rparr>, cst1))
            else (defaultEntryRange, cst1))"

datatype rejectReason =
  WarmingUp | WaitForWindow | NoBestAsk | SpreadTooWide | AskAboveRange | AskBelowRange
  | BearishCandle | NoCapital | CapitalTooSmall | InsufficientLiquidity

record admitted =
  ad_side :: side
  ad_entryRange :: entryRange
  ad_fill :: realFill
  ad_capitalBefore :: rat

datatype entryDecision = Reject rejectReason | Admit admitted

definition canEnterPosition ::
  "certCtx \<Rightarrow> side \<Rightarrow> rat option \<Rightarrow> rat \<Rightarrow> certState \<Rightarrow> entryDecision \<times> certState" where
  "canEnterPosition ctx s tRem paperBalance cst =
     (let reentryRequired = is_requireReentryUntilResolved (cs_intervalState cst) in
      if \<not> reentryRequired \<and> \<not> isWarmedUp (mi_nowMs (cx_market ctx)) cst s
        then (Reject WarmingUp, cst)
      else if \<not> reentryRequired
              \<and> (case tRem of None \<Rightarrow> True | Some t \<Rightarrow> t > ENTRY_TIME_WINDOW_SEC)
        then (Reject WaitForWindow, cst)
      else
        case bookSummaryOf ctx s of
          None \<Rightarrow> (Reject NoBestAsk, cst)
        | Some summary \<Rightarrow>
            let bestAsk = bs_bestAsk summary in
            if \<not> bestAsk > 0 then (Reject NoBestAsk, cst)
            else if \<not> spreadOk (Some summary) then (Reject SpreadTooWide, cst)
            else
              case getCurrentEntryRange ctx cst of
                (entryRange, cst1) \<Rightarrow>
                  if bestAsk > er_max entryRange + PRICE_EPS then (Reject AskAboveRange, cst1)
                  else if bestAsk < er_min entryRange - PRICE_EPS then (Reject AskBelowRange, cst1)
                  else if \<not> reentryRequired \<and> \<not> isBullishMomentum cst1 s
                    then (Reject BearishCandle, cst1)
                  else
                    case (if cx_PAPER_TRADING ctx then Some paperBalance
                          else cx_collateralBalanceUsdc ctx) of
                      None \<Rightarrow> (Reject NoCapital, cst1)
                    | Some capitalBefore \<Rightarrow>
                        if \<not> capitalBefore > 0 then (Reject NoCapital, cst1)
                        else
                          let budget = (if cx_PAPER_TRADING ctx
                                        then capitalBefore - ORDER_GAS_USDC else capitalBefore)
                          in
                            if \<not> budget > 0 then (Reject CapitalTooSmall, cst1)
                            else
                              case maxSharesForBudgetReal (bookAsksOf ctx s) budget
                                     (Some (er_max entryRange)) MIN_SHARES of
                                None \<Rightarrow> (Reject InsufficientLiquidity, cst1)
                              | Some fill \<Rightarrow>
                                  (Admit \<lparr> ad_side = s, ad_entryRange = entryRange,
                                          ad_fill = fill, ad_capitalBefore = capitalBefore \<rparr>,
                                   cst1))"

definition executePaperBuy ::
  "certCtx \<Rightarrow> int \<Rightarrow> side \<Rightarrow> string option \<Rightarrow> rat \<Rightarrow> realFill option \<Rightarrow> rat \<Rightarrow> rat
   \<Rightarrow> rat \<times> certState \<Rightarrow> rat \<times> certState" where
  "executePaperBuy ctx tradeId s tokenId shares fill maxPrice01 capitalBeforeUsdc bst =
     (case bst of (paperBalance, cst) \<Rightarrow>
      if cs_open cst \<noteq> None then bst
      else if \<not> shares > 0 then bst
      else
        case fill of
          None \<Rightarrow> bst
        | Some f \<Rightarrow>
            let gas = ORDER_GAS_USDC;
                total = rf_cost f + gas
            in
              if total > paperBalance then bst
              else
                let balance1 = executePaperDelta paperBalance (- total);
                    mi = cx_market ctx;
                    pos = \<lparr> cp_tradeId = tradeId, cp_side = s, cp_tokenId = tokenId,
                            cp_shares = shares, cp_entryCostUsdc = rf_cost f,
                            cp_entryNotionalUsdc = Some (rf_notional f),
                            cp_entryFeeUsdc = Some (rf_fee f),
                            cp_entryGasUsdc = Some gas, cp_entryLimitPrice = maxPrice01,
                            cp_openedAt = mi_nowMs mi, cp_endEpochSec = endEpochOrDefault mi,
                            cp_marketId = mi_marketId mi,
                            cp_referencePrice = mi_referencePrice mi,
                            cp_entrySpot = mi_underlyingPrice mi \<rparr>;
                    iState = cs_intervalState cst;
                    iState1 = iState \<lparr> is_entryCount := is_entryCount iState + 1,
                                       is_requireReentryUntilResolved := False,
                                       is_lastExitType := None \<rparr>;
                    tr = \<lparr> t_tradeId = tradeId, t_entryTime = mi_nowMs mi,
                           t_timeToResolutionSec = timeRemainingSec mi,
                           t_entrySide = s, t_entryPrice = maxPrice01, t_shares = shares,
                           t_entryNotionalUsdc = rf_notional f, t_takerFeesPaidUsdc = rf_fee f,
                           t_gasPaidUsdc = gas, t_capitalBeforeUsdc = Some capitalBeforeUsdc,
                           t_capitalAfterUsdc = Some balance1, t_status = OPEN,
                           t_exitType = None, t_exitTime = None, t_exitPrice = None,
                           t_exitGrossUsdc = None, t_exitFeeUsdc = None,
                           t_exitProceedsUsdc = None, t_roi = None \<rparr>
                in
                  (balance1,
                   cst \<lparr> cs_open := Some pos,
                         cs_intervalState := iState1,
                         cs_trades := cs_trades cst @ [tr] \<rparr>))"

fun updateFirstTrade :: "int \<Rightarrow> (trade \<Rightarrow> trade) \<Rightarrow> trade list \<Rightarrow> trade list" where
  "updateFirstTrade tradeId f [] = []"
| "updateFirstTrade tradeId f (t # ts) =
     (if t_tradeId t = tradeId then f t # ts else t # updateFirstTrade tradeId f ts)"

definition executePaperSell ::
  "certCtx \<Rightarrow> certPosition option \<Rightarrow> realSellFill option \<Rightarrow> exitType \<Rightarrow> rat \<times> certState
   \<Rightarrow> rat \<times> certState" where
  "executePaperSell ctx opn sellFill exitType bst =
     (case bst of (paperBalance, cst) \<Rightarrow>
      case opn of
        None \<Rightarrow> bst
      | Some pos \<Rightarrow>
         (case sellFill of
            None \<Rightarrow> bst
          | Some sf \<Rightarrow>
              let gas = ORDER_GAS_USDC;
                  balance1 = executePaperDelta (executePaperDelta paperBalance (rs_proceeds sf)) (- gas);
                  closeTrade = (\<lambda>t.
                    t \<lparr> t_exitType := Some exitType,
                        t_exitTime := Some (mi_nowMs (cx_market ctx)),
                        t_exitPrice := rs_minFilledPrice sf,
                        t_exitGrossUsdc := Some (rs_gross sf),
                        t_exitFeeUsdc := Some (rs_fee sf),
                        t_exitProceedsUsdc := Some (rs_proceeds sf),
                        t_gasPaidUsdc := t_gasPaidUsdc t + gas,
                        t_capitalAfterUsdc := Some balance1,
                        t_status := (if exitType = TakeProfit then PROFIT else STOPPED),
                        t_roi := (case t_capitalBeforeUsdc t of
                                    Some capitalBefore \<Rightarrow>
                                      if capitalBefore > 0
                                      then Some ((balance1 - capitalBefore) / capitalBefore)
                                      else t_roi t
                                  | None \<Rightarrow> t_roi t) \<rparr>);
                  iState = (cs_intervalState cst) \<lparr> is_lastExitType := Some exitType \<rparr>;
                  iState1 = (case (exitType, rs_avgPrice sf) of
                               (StopLoss, Some avg) \<Rightarrow>
                                 iState \<lparr> is_lastStopLossExitPrice := Some avg,
                                          is_requireReentryUntilResolved := True \<rparr>
                             | _ \<Rightarrow> iState)
              in
                (balance1,
                 cst \<lparr> cs_trades := updateFirstTrade (cp_tradeId pos) closeTrade (cs_trades cst),
                       cs_intervalState := iState1,
                       cs_open := None \<rparr>)))"

subsection \<open>Exit triggers\<close>

text \<open>
  \<open>checkStopLoss\<close> and \<open>checkTakeProfit\<close>: whether the exit is triggered, and the price
  \<open>px\<close> (the mark of the position's side, or its best bid when there is no mark) it was
  decided on.
\<close>

definition checkStopLoss :: "certCtx \<Rightarrow> certPosition option \<Rightarrow> bool \<times> rat option" where
  "checkStopLoss ctx opn =
     (case opn of
        None \<Rightarrow> (False, None)
      | Some pos \<Rightarrow>
          let posAgeMs = mi_nowMs (cx_market ctx) - cp_openedAt pos in
          if posAgeMs < 2000 then (False, None)
          else
            case bookSummaryOf ctx (cp_side pos) of
              None \<Rightarrow> (False, None)
            | Some summary \<Rightarrow>
                let px = (if bs_mark summary > 0 then bs_mark summary else bs_bestBid summary) in
                if \<not> px > 0 then (False, None)
                else (px \<le> STOP_LOSS_PRICE + PRICE_EPS, Some px))"

definition checkTakeProfit :: "certCtx \<Rightarrow> certPosition \<Rightarrow> bool \<times> rat option" where
  "checkTakeProfit ctx pos =
     (case bookSummaryOf ctx (cp_side pos) of
        None \<Rightarrow> (False, None)
      | Some summary \<Rightarrow>
          let px = (if bs_mark summary > 0 then bs_mark summary else bs_bestBid summary) in
          if \<not> px > 0 then (False, None)
          else (px \<ge> TAKE_PROFIT_MIN - PRICE_EPS \<and> px \<le> TAKE_PROFIT_MAX + PRICE_EPS, Some px))"

subsection \<open>Live execution\<close>

text \<open>
  \<open>executeLiveBuy\<close> and \<open>executeLiveSell\<close> post one fill-or-kill order each and do not read
  the answer of \<open>createAndPostOrder\<close>; what the exchange does with the order (\<open>fokOutcome\<close>)
  is an input, and so is the answer of \<open>getBalanceAllowance\<close> (\<open>None\<close> when the call
  throws).  Besides the state of the mode the functions change \<open>ctx.state.collateral\<close>; the
  holdings are the exchange's record of the outcome shares of the account.  The entry
  passed to \<open>executeLiveBuy\<close> is the admitted entry of \<open>onOrderbooks\<close>, whose fill is set.
\<close>

record collateral =
  col_balanceUsdc :: "rat option"
  col_allowanceUsdc :: "rat option"

record certLiveState =
  lv_holdings :: holdings
  lv_collateral :: collateral
  lv_cert :: certState

datatype certLiveResult = CertNotRun | CertThrew | CertBlocked | CertPosted fokOutcome

definition fokSell :: "fokOutcome \<Rightarrow> rat \<Rightarrow> rat \<Rightarrow> rat" where
  "fokSell outcome orderSize held = (case outcome of Filled \<Rightarrow> held - orderSize | _ \<Rightarrow> held)"

definition onSide :: "side \<Rightarrow> (rat \<Rightarrow> rat) \<Rightarrow> holdings \<Rightarrow> holdings" where
  "onSide s f held =
     (case s of Up \<Rightarrow> held \<lparr> h_up := f (h_up held) \<rparr> | Down \<Rightarrow> held \<lparr> h_down := f (h_down held) \<rparr>)"

definition tokenIdOf :: "certCtx \<Rightarrow> side \<Rightarrow> string option" where
  "tokenIdOf ctx s = (case s of Up \<Rightarrow> cx_upTokenId ctx | Down \<Rightarrow> cx_downTokenId ctx)"

definition nextTradeId :: "certState \<Rightarrow> int \<times> certState" where
  "nextTradeId cst = (cs_tradeSeq cst + 1, cst \<lparr> cs_tradeSeq := cs_tradeSeq cst + 1 \<rparr>)"

text \<open>
  The one refusal of \<open>liveCanSpendUsdc\<close> whose reason contains \<open>unknown\<close>
  (\<open>Balance/allowance unknown (still loading)\<close>).
\<close>

definition balanceUnknown :: "collateral \<Rightarrow> rat \<Rightarrow> bool" where
  "balanceUnknown col requiredUsdc =
     (requiredUsdc > 0 \<and> (col_balanceUsdc col = None \<or> col_allowanceUsdc col = None))"

definition executeLiveBuy ::
  "certCtx \<Rightarrow> admitted \<Rightarrow> int option \<Rightarrow> rat option \<Rightarrow> (rat option \<times> rat option) option
   \<Rightarrow> fokOutcome \<Rightarrow> certLiveState \<Rightarrow> certLiveResult \<times> certLiveState" where
  "executeLiveBuy ctx enter maybeTradeId limitPrice01 refreshed outcome st =
     (if cx_PAPER_TRADING ctx then (CertNotRun, st)
      else if \<not> cx_ENABLE_LIVE_ORDERS ctx then (CertNotRun, st)
      else
        let s = ad_side enter;
            fill = ad_fill enter;
            tokenId = tokenIdOf ctx s;
            shares = rf_shares fill;
            maxPrice01 = (case limitPrice01 of Some p \<Rightarrow> p | None \<Rightarrow> rf_maxPrice fill);
            costUsdc = rf_cost fill;
            mi = cx_market ctx;
            tRem = timeRemainingSec mi
        in
          if \<not> truthy tokenId then (CertThrew, st)
          else if \<not> cx_clobCreds ctx then (CertThrew, st)
          else
            let col = lv_collateral st;
                capitalBefore = col_balanceUsdc col;
                col1 = (if \<not> liveCanSpendUsdc (col_balanceUsdc col) (col_allowanceUsdc col) costUsdc
                           \<and> balanceUnknown col costUsdc
                        then (case refreshed of
                                Some (bal, allowance) \<Rightarrow>
                                  \<lparr> col_balanceUsdc = bal, col_allowanceUsdc = allowance \<rparr>
                              | None \<Rightarrow> col)
                        else col);
                st1 = st \<lparr> lv_collateral := col1 \<rparr>
            in
              if \<not> liveCanSpendUsdc (col_balanceUsdc col1) (col_allowanceUsdc col1) costUsdc
                then (CertBlocked, st1)
              else if outcome = PostThrows then (CertThrew, st1)
              else
                let (tradeId, cst) = (case maybeTradeId of
                                        Some t \<Rightarrow> (t, lv_cert st1)
                                      | None \<Rightarrow> nextTradeId (lv_cert st1));
                    pos = \<lparr> cp_tradeId = tradeId, cp_side = s, cp_tokenId = tokenId,
                            cp_shares = shares, cp_entryCostUsdc = costUsdc,
                            cp_entryNotionalUsdc = None, cp_entryFeeUsdc = None,
                            cp_entryGasUsdc = None, cp_entryLimitPrice = maxPrice01,
                            cp_openedAt = mi_nowMs mi, cp_endEpochSec = endEpochOrDefault mi,
                            cp_marketId = mi_marketId mi,
                            cp_referencePrice = mi_referencePrice mi,
                            cp_entrySpot = mi_underlyingPrice mi \<rparr>;
                    iState = cs_intervalState cst;
                    iState1 = iState \<lparr> is_entryCount := is_entryCount iState + 1,
                                       is_requireReentryUntilResolved := False,
                                       is_lastExitType := None \<rparr>;
                    tr = \<lparr> t_tradeId = tradeId, t_entryTime = mi_nowMs mi,
                           t_timeToResolutionSec = tRem,
                           t_entrySide = s, t_entryPrice = maxPrice01, t_shares = shares,
                           t_entryNotionalUsdc = rf_notional fill, t_takerFeesPaidUsdc = rf_fee fill,
                           t_gasPaidUsdc = ORDER_GAS_USDC, t_capitalBeforeUsdc = capitalBefore,
                           t_capitalAfterUsdc = None, t_status = OPEN,
                           t_exitType = None, t_exitTime = None, t_exitPrice = None,
                           t_exitGrossUsdc = None, t_exitFeeUsdc = None,
                           t_exitProceedsUsdc = None, t_roi = None \<rparr>
                in
                  (CertPosted outcome,
                   st1 \<lparr> lv_holdings := onSide s (fokBuy outcome shares) (lv_holdings st1),
                         lv_cert := cst \<lparr> cs_open := Some pos,
                                           cs_intervalState := iState1,
                                           cs_trades := cs_trades cst @ [tr] \<rparr> \<rparr>))"

definition executeLiveSell ::
  "certCtx \<Rightarrow> certPosition \<Rightarrow> string option \<Rightarrow> rat option \<Rightarrow> rat option \<Rightarrow> exitType
   \<Rightarrow> fokOutcome \<Rightarrow> certLiveState \<Rightarrow> certLiveResult \<times> certLiveState" where
  "executeLiveSell ctx opn tokenId minPrice01 proceedsUsdc exitType outcome st =
     (if cx_PAPER_TRADING ctx then (CertNotRun, st)
      else if \<not> cx_ENABLE_LIVE_ORDERS ctx then (CertNotRun, st)
      else if \<not> truthy tokenId then (CertThrew, st)
      else if \<not> cx_clobCreds ctx then (CertThrew, st)
      else if outcome = PostThrows then (CertThrew, st)
      else
        let cst = lv_cert st;
            gas = ORDER_GAS_USDC;
            iState = (cs_intervalState cst) \<lparr> is_lastExitType := Some exitType \<rparr>;
            iState1 = (case (exitType, minPrice01) of
                         (StopLoss, Some p) \<Rightarrow>
                           iState \<lparr> is_lastStopLossExitPrice := Some p,
                                    is_requireReentryUntilResolved := True \<rparr>
                       | _ \<Rightarrow> iState);
            col = lv_collateral st;
            prevBal = (case col_balanceUsdc col of Some b \<Rightarrow> b | None \<Rightarrow> 0);
            newBal = prevBal + (case proceedsUsdc of Some p \<Rightarrow> p | None \<Rightarrow> 0) - gas;
            closeTrade = (\<lambda>t.
              t \<lparr> t_exitType := Some exitType,
                  t_exitTime := Some (mi_nowMs (cx_market ctx)),
                  t_exitPrice := minPrice01,
                  t_exitProceedsUsdc := proceedsUsdc,
                  t_gasPaidUsdc := t_gasPaidUsdc t + gas,
                  t_capitalAfterUsdc := Some newBal,
                  t_status := (if exitType = TakeProfit then PROFIT else STOPPED),
                  t_roi := (case t_capitalBeforeUsdc t of
                              Some capitalBefore \<Rightarrow>
                                if capitalBefore > 0
                                then Some ((newBal - capitalBefore) / capitalBefore)
                                else t_roi t
                            | None \<Rightarrow> t_roi t) \<rparr>)
        in
          (CertPosted outcome,
           st \<lparr> lv_holdings := onSide (cp_side opn) (fokSell outcome (cp_shares opn)) (lv_holdings st),
                lv_collateral := col \<lparr> col_balanceUsdc := Some newBal \<rparr>,
                lv_cert := cst \<lparr> cs_trades := updateFirstTrade (cp_tradeId opn) closeTrade (cs_trades cst),
                                  cs_intervalState := iState1,
                                  cs_open := None \<rparr> \<rparr>))"

definition findBestAvailableSellPrice :: "level list \<Rightarrow> rat \<Rightarrow> rat \<Rightarrow> rat option" where
  "findBestAvailableSellPrice bids targetPrice maxPriceBelow =
     (let minAcceptable = targetPrice - maxPriceBelow in
      foldl (\<lambda>bestPrice l.
               if \<not> size_l l > 0 then bestPrice
               else if price l \<le> targetPrice + PRICE_EPS \<and> price l \<ge> minAcceptable - PRICE_EPS
                 then (case bestPrice of
                         None \<Rightarrow> Some (price l)
                       | Some b \<Rightarrow> if price l > b then Some (price l) else bestPrice)
                 else bestPrice)
            None bids)"


section \<open>Concrete ticks\<close>

text \<open>Inputs for the concrete evaluations below.\<close>

definition demoMarket :: marketInfo where
  "demoMarket =
     \<lparr> mi_nowMs = 1700000100000, mi_endEpochSec = Some 1700000400,
       mi_marketId = Some ''m1'', mi_referencePrice = Some 100000,
       mi_conditionId = Some ''c1'', mi_underlyingPrice = Some 100050 \<rparr>"

definition demoCertCtx :: "rat \<Rightarrow> rat \<Rightarrow> rat \<Rightarrow> rat \<Rightarrow> certCtx" where
  "demoCertCtx upBid upAsk downBid downAsk =
     \<lparr> cx_market = demoMarket, cx_PAPER_TRADING = True, cx_entrySpot = None,
       cx_collateralBalanceUsdc = None,
       cx_up = Some \<lparr> bs_bestBid = upBid, bs_bestAsk = upAsk, bs_mark = computeMarkPrice upBid upAsk \<rparr>,
       cx_down = Some \<lparr> bs_bestBid = downBid, bs_bestAsk = downAsk,
                        bs_mark = computeMarkPrice downBid downAsk \<rparr>,
       cx_upAsksLevels = [\<lparr> price = upAsk, size_l = 100 \<rparr>],
       cx_upBidsLevels = [\<lparr> price = upBid, size_l = 100 \<rparr>],
       cx_downAsksLevels = [\<lparr> price = downAsk, size_l = 100 \<rparr>],
       cx_downBidsLevels = [\<lparr> price = downBid, size_l = 100 \<rparr>],
       cx_upTokenId = Some ''up-token'', cx_downTokenId = Some ''down-token'',
       cx_ENABLE_LIVE_ORDERS = False, cx_clobCreds = False \<rparr>"

definition demoCandles :: "rat \<Rightarrow> rat \<Rightarrow> int \<Rightarrow> rat \<Rightarrow> candleData" where
  "demoCandles openPx closePx startTime prevClose =
     \<lparr> cd_current = Some \<lparr> c_minute = 28333335, c_open = openPx, c_high = max openPx closePx,
                            c_low = min openPx closePx, c_close = closePx, c_startTime = startTime \<rparr>,
       cd_history = [\<lparr> c_minute = 28333334, c_open = prevClose, c_high = prevClose,
                       c_low = prevClose, c_close = prevClose, c_startTime = 1700000040000 \<rparr>] \<rparr>"

definition demoCertState :: "intervalState \<Rightarrow> candleData \<Rightarrow> candleData \<Rightarrow> certState" where
  "demoCertState iState up down =
     \<lparr> cs_open = None, cs_intervalState = iState, cs_candlesUp = up, cs_candlesDown = down,
       cs_trades = [], cs_tradeSeq = 0, cs_intervalStartBtcPrice = None \<rparr>"

definition freshInterval :: intervalState where
  "freshInterval =
     \<lparr> is_marketId = Some ''m1'', is_lastExitType = None, is_entryCount = 0,
       is_startBtcPrice = None, is_lastStopLossExitPrice = None,
       is_requireReentryUntilResolved = False \<rparr>"


definition demoPosition :: "side \<Rightarrow> rat \<Rightarrow> certPosition" where
  "demoPosition s shares =
     \<lparr> cp_tradeId = 1, cp_side = s, cp_tokenId = Some ''up-token'', cp_shares = shares,
       cp_entryCostUsdc = shares * (81 / 100), cp_entryNotionalUsdc = Some (shares * (81 / 100)),
       cp_entryFeeUsdc = Some 0, cp_entryGasUsdc = Some 0, cp_entryLimitPrice = 82 / 100,
       cp_openedAt = 1700000050000, cp_endEpochSec = 1700000400, cp_marketId = Some ''m1'',
       cp_referencePrice = Some 100000, cp_entrySpot = Some 100050 \<rparr>"

definition demoLagCtx :: "rat \<Rightarrow> rat \<Rightarrow> lagCtx" where
  "demoLagCtx binancePrice chainlinkPrice =
     \<lparr> lx_market = demoMarket, lx_PAPER_TRADING = True, lx_ENABLE_LIVE_ORDERS = False,
       lx_RTDS_SOURCE = Auto, lx_spotExchangeTimestampMs = Some 1700000099900,
       lx_binance_ws = Some \<lparr> fd_price = Some binancePrice,
                               fd_exchangeTimestampMs = Some 1700000099900,
                               fd_lastUpdated = Some 1700000099950 \<rparr>,
       lx_chainlink = Some \<lparr> fd_price = Some chainlinkPrice,
                              fd_exchangeTimestampMs = None,
                              fd_lastUpdated = Some 1700000090000 \<rparr>,
       lx_up = Some \<lparr> bs_bestBid = 49 / 100, bs_bestAsk = 1 / 2, bs_mark = 99 / 200 \<rparr>,
       lx_down = Some \<lparr> bs_bestBid = 1 / 2, bs_bestAsk = 51 / 100, bs_mark = 101 / 200 \<rparr>,
       lx_upAsksLevels = [\<lparr> price = 1 / 2, size_l = 100 \<rparr>],
       lx_upBidsLevels = [\<lparr> price = 49 / 100, size_l = 100 \<rparr>],
       lx_downAsksLevels = [\<lparr> price = 51 / 100, size_l = 100 \<rparr>],
       lx_downBidsLevels = [\<lparr> price = 1 / 2, size_l = 100 \<rparr>],
       lx_upTokenId = Some ''up-token'', lx_downTokenId = Some ''down-token'',
       lx_upFeeBps = Some 0, lx_downFeeBps = Some 0 \<rparr>"

definition demoLagState :: lagState where
  "demoLagState =
     \<lparr> lag_signal = Some ''LAG'', lag_suggestedSide = Some Up, lag_suggestedSpend = Some 10,
       lag_suggestedShares = Some 5, lag_suggestedLimitPrice = Some (1 / 2),
       lag_spotDeltaUsd = Some 40, lag_sideMarketMove01 = Some 0,
       lag_feedDisagreeUsd = None, lag_lastEvalAt = Some 1700000099000,
       lag_spotHistory = [(1700000099000, 100010)], lag_open = None,
       lag_pending = Some \<lparr> lp_side = Up, lp_px = 1 / 2, lp_hits = 1, lp_firstAt = 1700000099000 \<rparr>,
       lag_lastTradeAt = None, lag_lastStopAt = None, lag_lastSignalAt = None \<rparr>"

text \<open>
  A live tick on which the stop-loss of an Up position is due: Up trades at 0.745 bid and
  0.755 ask, 100 shares each (mark 0.75); the account holds 10 Up shares, bought at 0.81 in
  this interval; balance 40, allowance 1000.
\<close>

definition liveCtx :: certCtx where
  "liveCtx =
     (demoCertCtx (149/200) (151/200) (49/200) (51/200))
       \<lparr> cx_PAPER_TRADING := False, cx_collateralBalanceUsdc := Some 40,
         cx_ENABLE_LIVE_ORDERS := True, cx_clobCreds := True \<rparr>"

definition liveOpenTrade :: trade where
  "liveOpenTrade =
     \<lparr> t_tradeId = 1, t_entryTime = 1700000050000, t_timeToResolutionSec = Some 350,
       t_entrySide = Up, t_entryPrice = 82 / 100, t_shares = 10,
       t_entryNotionalUsdc = 81 / 10, t_takerFeesPaidUsdc = 1539 / 50000,
       t_gasPaidUsdc = 0, t_capitalBeforeUsdc = Some 50, t_capitalAfterUsdc = None,
       t_status = OPEN, t_exitType = None, t_exitTime = None, t_exitPrice = None,
       t_exitGrossUsdc = None, t_exitFeeUsdc = None, t_exitProceedsUsdc = None, t_roi = None \<rparr>"

definition liveHolding :: certLiveState where
  "liveHolding =
     \<lparr> lv_holdings = \<lparr> h_up = 10, h_down = 0 \<rparr>,
       lv_collateral = \<lparr> col_balanceUsdc = Some 40, col_allowanceUsdc = Some 1000 \<rparr>,
       lv_cert = (demoCertState (freshInterval \<lparr> is_entryCount := 1 \<rparr>)
                    (demoCandles (4/5) (151/200) 1700000090000 (81/100))
                    (demoCandles (1/5) (51/200) 1700000090000 (19/100)))
                 \<lparr> cs_open := Some (demoPosition Up 10), cs_trades := [liveOpenTrade],
                   cs_tradeSeq := 1 \<rparr> \<rparr>"

text \<open>
  The state after the stop-loss sell order of that tick has been posted and filled
  (limit 0.745, the best available bid price; estimated proceeds 7.412005), the next tick
  (the balance is the one \<open>executeLiveSell\<close> wrote), the entry \<open>canEnterPosition\<close> admits on
  it, and the state after the buy order for that entry has been posted and killed by the
  exchange.
\<close>

definition liveStopped :: certLiveState where
  "liveStopped =
     snd (executeLiveSell liveCtx (demoPosition Up 10) (tokenIdOf liveCtx Up) (Some (149 / 200))
            (Some (1482401 / 200000)) StopLoss Filled liveHolding)"

definition liveCtxAfter :: certCtx where
  "liveCtxAfter = liveCtx \<lparr> cx_collateralBalanceUsdc := Some (9482401 / 200000) \<rparr>"

definition liveAdmitted :: admitted where
  "liveAdmitted =
     \<lparr> ad_side = Up, ad_entryRange = \<lparr> er_min = 73 / 100, er_max = 19 / 25 \<rparr>,
       ad_fill = \<lparr> rf_shares = 62, rf_notional = 4681 / 100, rf_fee = 229369 / 1000000,
                   rf_cost = 47039369 / 1000000, rf_maxPrice = 151 / 200,
                   rf_avgPrice = 151 / 200 \<rparr>,
       ad_capitalBefore = 9482401 / 200000 \<rparr>"

definition liveReentered :: certLiveState where
  "liveReentered =
     (case nextTradeId (lv_cert liveStopped) of
        (tradeId, cst) \<Rightarrow>
          snd (executeLiveBuy liveCtxAfter liveAdmitted (Some tradeId)
                 (Some (er_max (ad_entryRange liveAdmitted))) None Killed
                 (liveStopped \<lparr> lv_cert := cst \<rparr>)))"

text \<open>
  A paper tick on which the stop-loss of 10 Down shares is sold at 0.745, and a fill of 10
  shares at 0.75 for the re-entry.
\<close>

definition paperCtx :: certCtx where
  "paperCtx = demoCertCtx (6/25) (13/50) (149/200) (3/4)"

definition paperStopped :: "rat \<times> certState" where
  "paperStopped =
     executePaperSell paperCtx (Some (demoPosition Down 10))
       (proceedsFromSellingSharesToBidsReal [\<lparr> price = 149 / 200, size_l = 100 \<rparr>] 10
          (Some (149 / 200)))
       StopLoss
       (50, demoCertState freshInterval (demoCandles (1/5) (13/50) 1700000090000 (1/5))
              (demoCandles (4/5) (3/4) 1700000090000 (41/50)))"

definition paperFill :: realFill where
  "paperFill =
     \<lparr> rf_shares = 10, rf_notional = 15 / 2, rf_fee = 3 / 80, rf_cost = 603 / 80,
       rf_maxPrice = 3 / 4, rf_avgPrice = 3 / 4 \<rparr>"
section \<open>Properties of the sweeps\<close>

lemma normalizeFeeBps_nonneg: "0 \<le> feeOrZero (normalizeFeeBps raw)"
  by (simp add: normalizeFeeBps_def feeOrZero_def split: option.splits)

lemma posDepth_nonneg: "0 \<le> posDepth ls"
  unfolding posDepth_def by (induction ls) auto

lemma posDepth_Cons: "posDepth (l # ls) = max 0 (size_l l) + posDepth ls"
  by (simp add: posDepth_def)

lemma sweepAsks_remaining:
  "0 \<le> r \<Longrightarrow> fst (sweepAsks ls r c m) = max 0 (r - posDepth ls)"
proof (induction ls arbitrary: r c m)
  case Nil
  then show ?case by (simp add: posDepth_def)
next
  case (Cons l ls)
  show ?case
  proof (cases "r > 0")
    case False
    with Cons.prems have "r = 0" by simp
    then show ?thesis using posDepth_nonneg [of "l # ls"] by simp
  next
    case True
    show ?thesis
    proof (cases "min r (size_l l) \<le> 0")
      case True
      with \<open>r > 0\<close> have "size_l l \<le> 0" by (simp add: min_def split: if_splits)
      then show ?thesis using \<open>r > 0\<close> True Cons.IH [of r c m] Cons.prems
        by (simp add: posDepth_Cons max_def)
    next
      case False
      then have sz: "0 < size_l l" by (simp add: min_def split: if_splits)
      have "0 \<le> r - min r (size_l l)" by simp
      from Cons.IH [OF this]
      show ?thesis using \<open>r > 0\<close> False sz posDepth_nonneg [of ls]
        by (simp add: posDepth_Cons Let_def max_def min_def)
    qed
  qed
qed

lemma sweepAsks_cost_ge:
  "\<forall>l\<in>set ls. 0 \<le> price l \<Longrightarrow> c \<le> fst (snd (sweepAsks ls r c m))"
proof (induction ls arbitrary: r c m)
  case Nil
  then show ?case by simp
next
  case (Cons l ls)
  have p: "0 \<le> price l" and rest: "\<forall>l\<in>set ls. 0 \<le> price l" using Cons.prems by auto
  show ?case
  proof (cases "r > 0 \<and> \<not> min r (size_l l) \<le> 0")
    case True
    then have "0 \<le> min r (size_l l) * price l" using p by (intro mult_nonneg_nonneg) auto
    moreover have "c + min r (size_l l) * price l
        \<le> fst (snd (sweepAsks ls (r - min r (size_l l)) (c + min r (size_l l) * price l) (price l)))"
      by (rule Cons.IH [OF rest])
    ultimately show ?thesis using True by (simp add: Let_def)
  next
    case False
    then show ?thesis using Cons.IH [OF rest, of c r m] by (auto simp: Let_def)
  qed
qed

lemma sweepAsks_cost_mono:
  "\<forall>l\<in>set ls. 0 \<le> price l \<Longrightarrow> r1 \<le> r2 \<Longrightarrow> c1 \<le> c2 \<Longrightarrow>
   fst (snd (sweepAsks ls r1 c1 m1)) \<le> fst (snd (sweepAsks ls r2 c2 m2))"
proof (induction ls arbitrary: r1 r2 c1 c2 m1 m2)
  case Nil
  then show ?case by simp
next
  case (Cons l ls)
  have p: "0 \<le> price l" and rest: "\<forall>l\<in>set ls. 0 \<le> price l" using Cons.prems by auto
  show ?case
  proof (cases "r1 > 0")
    case False
    then have "fst (snd (sweepAsks (l # ls) r1 c1 m1)) = c1" by simp
    moreover have "c2 \<le> fst (snd (sweepAsks (l # ls) r2 c2 m2))"
      by (rule sweepAsks_cost_ge) (use Cons.prems in auto)
    ultimately show ?thesis using Cons.prems by simp
  next
    case r1: True
    then have r2: "r2 > 0" using Cons.prems by simp
    show ?thesis
    proof (cases "size_l l \<le> 0")
      case True
      then show ?thesis using r1 r2 Cons.IH [OF rest Cons.prems(2) Cons.prems(3)]
        by (simp add: Let_def min_def)
    next
      case False
      then have t1: "\<not> min r1 (size_l l) \<le> 0" and t2: "\<not> min r2 (size_l l) \<le> 0"
        using r1 r2 by (simp_all add: min_def)
      have a: "r1 - min r1 (size_l l) \<le> r2 - min r2 (size_l l)"
        using Cons.prems(2) by (simp add: min_def)
      have "min r1 (size_l l) * price l \<le> min r2 (size_l l) * price l"
        using Cons.prems(2) p by (intro mult_right_mono) (simp_all add: min_def)
      then have b: "c1 + min r1 (size_l l) * price l \<le> c2 + min r2 (size_l l) * price l"
        using Cons.prems(3) by simp
      show ?thesis using r1 r2 t1 t2 Cons.IH [OF rest a b]
        by (simp add: Let_def)
    qed
  qed
qed

lemma sumSizes_sum_list: "sumSizes ls = sum_list (map size_l ls)"
proof -
  have "foldl (\<lambda>acc l. acc + size_l l) a ls = a + sum_list (map size_l ls)" for a
    by (induction ls arbitrary: a) (simp_all add: add.assoc)
  then show ?thesis by (simp add: sumSizes_def)
qed


lemma costToBuy_None_depth:
  assumes "asks \<noteq> []" "0 < shares" "costToBuySharesFromAsks asks shares fee = None"
  shows "posDepth asks < shares - 1 / 10 ^ 9"
proof -
  have "fst (sweepAsks asks shares 0 0) = max 0 (shares - posDepth asks)"
    using assms(2) by (intro sweepAsks_remaining) simp
  moreover have "fst (sweepAsks asks shares 0 0) > 1 / 10 ^ 9"
    using assms by (auto simp: costToBuySharesFromAsks_def split: prod.splits if_splits)
  ultimately show ?thesis by (simp add: max_def split: if_splits)
qed




lemma bidDepth_nonneg: "0 \<le> bidDepth mp ls"
  by (induction ls) auto

lemma askDepthReal_nonneg: "0 \<le> askDepthReal mp ls"
  by (induction ls) auto

lemma sweepBids_remaining:
  "0 \<le> r \<Longrightarrow> fst (sweepBids ls mp r g mf) = max 0 (r - bidDepth mp ls)"
proof (induction ls arbitrary: r g mf)
  case Nil
  then show ?case by simp
next
  case (Cons l ls)
  show ?case
  proof (cases "r > 0 \<and> price l \<ge> mp")
    case False
    then show ?thesis using Cons.prems bidDepth_nonneg [of mp ls]
      by (auto simp: max_def)
  next
    case True
    show ?thesis
    proof (cases "min r (size_l l) \<le> 0")
      case t: True
      with True have "size_l l \<le> 0" by (simp add: min_def split: if_splits)
      then show ?thesis using True t Cons.IH [of r g mf] Cons.prems
        by (simp add: max_def)
    next
      case False
      then have sz: "0 < size_l l" by (simp add: min_def split: if_splits)
      have "0 \<le> r - min r (size_l l)" by simp
      from Cons.IH [OF this]
      show ?thesis using True False sz bidDepth_nonneg [of mp ls]
        by (simp add: Let_def max_def min_def)
    qed
  qed
qed

lemma sweepAsksReal_remaining:
  "0 \<le> as_remaining st \<Longrightarrow>
   as_remaining (sweepAsksReal ls mp st) = max 0 (as_remaining st - askDepthReal mp ls)"
proof (induction ls arbitrary: st)
  case Nil
  then show ?case by simp
next
  case (Cons l ls)
  show ?case
  proof (cases "as_remaining st > 0")
    case False
    then show ?thesis using Cons.prems askDepthReal_nonneg [of mp "l # ls"]
      by (simp add: max_def)
  next
    case True
    show ?thesis
    proof (cases "\<not> price l > 0 \<or> \<not> size_l l > 0")
      case t: True
      then show ?thesis using True Cons.IH [OF Cons.prems] by auto
    next
      case f1: False
      show ?thesis
      proof (cases "aboveMax mp (price l)")
        case True
        then show ?thesis using \<open>as_remaining st > 0\<close> f1 by simp
      next
        case False
        define st' where "st' = \<lparr> as_remaining = as_remaining st - min (as_remaining st) (size_l l),
            as_notional = as_notional st + min (as_remaining st) (size_l l) * price l,
            as_maxFilled = price l,
            as_weightedPriceSum = as_weightedPriceSum st + min (as_remaining st) (size_l l) * price l,
            as_filledShares = as_filledShares st + min (as_remaining st) (size_l l) \<rparr>"
        have step: "sweepAsksReal (l # ls) mp st = sweepAsksReal ls mp st'"
          using True f1 False by (simp add: Let_def st'_def)
        have "0 \<le> as_remaining st'" by (simp add: st'_def)
        from Cons.IH [OF this]
        show ?thesis unfolding step using f1 False True askDepthReal_nonneg [of mp ls]
          by (simp add: st'_def max_def min_def)
      qed
    qed
  qed
qed

lemma sweepAsksReal_filled:
  "as_filledShares (sweepAsksReal ls mp st) + as_remaining (sweepAsksReal ls mp st)
     = as_filledShares st + as_remaining st"
  by (induction ls arbitrary: st) (auto simp: Let_def)



section \<open>The binary search\<close>

lemma floor_half: "\<lfloor>(rat_of_int l + rat_of_int hi) / 2\<rfloor> = (l + hi) div 2"
proof -
  have "(rat_of_int l + rat_of_int hi) / 2 = rat_of_int (l + hi) / rat_of_int 2" by simp
  then show ?thesis by (simp only: floor_divide_of_int_eq)
qed








subsection \<open>Sweeps that take the whole side, or a side at one price\<close>









section \<open>Claims about BookMath\<close>




text \<open>
  The bound \<open>hi\<close> itself can fall one short of a fillable count, which is why the statement
  above stops at \<open>hi\<close>: with one ask level of 100 shares at 0.31, no fee and a budget of
  8.37, the double quotient \<open>8.37 / 0.31\<close> has floor 26, the search returns 26 shares, and
  27 shares cost 8.37, within the budget.
\<close>

lemma maxSharesForBudget_rounded_quotient:
  "maxSharesForBudget roundedOps [\<lparr>price = 31/100, size_l = 100\<rparr>] (Some 0) (837/100) 1
      = Some \<lparr>sh_shares = 26, sh_cost = 403/50, sh_maxPrice = 31/100\<rparr>
   \<and> searchHi roundedOps [\<lparr>price = 31/100, size_l = 100\<rparr>] (Some 0) (837/100) = 26
   \<and> costToBuySharesFromAsks [\<lparr>price = 31/100, size_l = 100\<rparr>] 27 (Some 0)
      = Some \<lparr>bf_cost = 837/100, bf_maxPrice = 31/100\<rparr>
   \<and> fillableWithin [\<lparr>price = 31/100, size_l = 100\<rparr>] (Some 0) (837/100) 27"
proof -
  have "maxSharesForBudget roundedOps [\<lparr>price = 31/100, size_l = 100\<rparr>] (Some 0) (837/100) 1
      = Some \<lparr>sh_shares = 26, sh_cost = 403/50, sh_maxPrice = 31/100\<rparr>"
    by code_simp
  moreover have "searchHi roundedOps [\<lparr>price = 31/100, size_l = 100\<rparr>] (Some 0) (837/100) = 26"
    by code_simp
  moreover have "costToBuySharesFromAsks [\<lparr>price = 31/100, size_l = 100\<rparr>] 27 (Some 0)
      = Some \<lparr>bf_cost = 837/100, bf_maxPrice = 31/100\<rparr>"
    by (simp add: costToBuySharesFromAsks_def feeOrZero_def)
  moreover have "fillableWithin [\<lparr>price = 31/100, size_l = 100\<rparr>] (Some 0) (837/100) 27"
    by (simp add: fillableWithin_def probeOK_def sumSizes_def costToBuySharesFromAsks_def feeOrZero_def)
  ultimately show ?thesis by simp
qed

text \<open>
  The other conditions of the statement are needed as well.  A \<open>minShares\<close> that is not
  an integer can exceed the result: the first probe is \<open>floor((lo + hi) / 2)\<close>, below
  \<open>lo = 1.5\<close>.  With \<open>minShares = 0\<close> the first probe is 0 shares, which
  \<open>costToBuySharesFromAsks\<close> refuses, and the search ends without a result.  A ladder whose
  best price is 0 is refused by the guard \<open>!(best > 0)\<close>.
\<close>

lemma maxSharesForBudget_fractional_minShares:
  "maxSharesForBudget exactOps [\<lparr>price = 2/5, size_l = 1\<rparr>, \<lparr>price = 9/10, size_l = 5\<rparr>] None 1 (3/2)
      = Some \<lparr>sh_shares = 1, sh_cost = 2/5, sh_maxPrice = 2/5\<rparr>"
  by code_simp

lemma maxSharesForBudget_zero_minShares:
  "maxSharesForBudget exactOps [\<lparr>price = 1/2, size_l = 1\<rparr>] None 1 0 = None
   \<and> fillableWithin [\<lparr>price = 1/2, size_l = 1\<rparr>] None 1 1"
  by code_simp

lemma maxSharesForBudget_zero_best_price:
  "maxSharesForBudget exactOps [\<lparr>price = 0, size_l = 5\<rparr>] None 1 1 = None
   \<and> fillableWithin [\<lparr>price = 0, size_l = 5\<rparr>] None 1 1"
  by code_simp

text \<open>
  C2 (monotonicity of the buy cost).  On a ladder with positive prices and sizes, for a fee
  rate that is not below -10000 bps (every rate \<open>normalizeFeeBps\<close> can store is at least
  0, and a missing rate counts as 0) and every share count \<open>N \<ge> 1\<close>: when
  \<open>costToBuySharesFromAsks\<close> succeeds for \<open>N\<close> and for \<open>N + 1\<close> shares, the
  fee-inclusive cost for \<open>N\<close> is at most the cost for \<open>N + 1\<close>.
\<close>

theorem C2_cost_monotone:
  assumes "\<forall>l\<in>set asks. 0 < price l \<and> 0 < size_l l"
    and "- 10000 \<le> feeOrZero feeBps"
    and "1 \<le> N"
    and "costToBuySharesFromAsks asks (of_int N) feeBps = Some f1"
    and "costToBuySharesFromAsks asks (of_int (N + 1)) feeBps = Some f2"
  shows "bf_cost f1 \<le> bf_cost f2"
proof -
  have pr: "\<forall>l\<in>set asks. 0 \<le> price l" using assms(1) by auto
  have le: "(of_int N :: rat) \<le> of_int (N + 1)" by simp
  have m: "fst (snd (sweepAsks asks (of_int N) 0 0)) \<le> fst (snd (sweepAsks asks (of_int (N + 1)) 0 0))"
    by (rule sweepAsks_cost_mono [OF pr le]) simp
  have k: "0 \<le> 1 + feeOrZero feeBps / 10000" using assms(2) by simp
  obtain r1 c1 m1 where s1: "sweepAsks asks (of_int N) 0 0 = (r1, c1, m1)"
    by (cases "sweepAsks asks (of_int N) 0 0") auto
  obtain r2 c2 m2 where s2: "sweepAsks asks (of_int (N + 1)) 0 0 = (r2, c2, m2)"
    by (cases "sweepAsks asks (of_int (N + 1)) 0 0") auto
  have f1: "bf_cost f1 = c1 * (1 + feeOrZero feeBps / 10000)"
    using assms(4) s1 by (auto simp: costToBuySharesFromAsks_def split: if_splits)
  have f2: "bf_cost f2 = c2 * (1 + feeOrZero feeBps / 10000)"
    using assms(5) s2 by (auto simp: costToBuySharesFromAsks_def split: if_splits)
  have "c1 \<le> c2" using m s1 s2 by simp
  then show ?thesis unfolding f1 f2 using k by (rule mult_right_mono)
qed

theorem C2_cost_monotone_witness:
  "costToBuySharesFromAsks [\<lparr>price = 2/5, size_l = 3\<rparr>, \<lparr>price = 1/2, size_l = 4\<rparr>] 3 (Some 200)
     = Some \<lparr>bf_cost = 153/125, bf_maxPrice = 2/5\<rparr>
   \<and> costToBuySharesFromAsks [\<lparr>price = 2/5, size_l = 3\<rparr>, \<lparr>price = 1/2, size_l = 4\<rparr>] 4 (Some 200)
     = Some \<lparr>bf_cost = 867/500, bf_maxPrice = 1/2\<rparr>
   \<and> bf_cost \<lparr>bf_cost = 153/125, bf_maxPrice = 2/5\<rparr> \<le> bf_cost \<lparr>bf_cost = 867/500, bf_maxPrice = 1/2\<rparr>"
proof -
  let ?asks = "[\<lparr>price = 2/5, size_l = 3\<rparr>, \<lparr>price = 1/2, size_l = 4\<rparr>]"
  have h1: "\<forall>l\<in>set ?asks. 0 < price l \<and> 0 < size_l l" by simp
  have h2: "- 10000 \<le> feeOrZero (Some 200)" by (simp add: feeOrZero_def)
  have h3: "(1::int) \<le> 3" by simp
  have h4: "costToBuySharesFromAsks ?asks (of_int 3) (Some 200)
      = Some \<lparr>bf_cost = 153/125, bf_maxPrice = 2/5\<rparr>"
    by (simp add: costToBuySharesFromAsks_def feeOrZero_def)
  have h5: "costToBuySharesFromAsks ?asks (of_int (3 + 1)) (Some 200)
      = Some \<lparr>bf_cost = 867/500, bf_maxPrice = 1/2\<rparr>"
    by (simp add: costToBuySharesFromAsks_def feeOrZero_def)
  from C2_cost_monotone [OF h1 h2 h3 h4 h5] h4 h5 show ?thesis by simp
qed

text \<open>
  C3 (no partial fill reported as success), as the code has it.  Each of
  \<open>costToBuySharesFromAsks\<close>, \<open>proceedsFromSellingSharesToBids\<close> and
  \<open>costToBuySharesFromAsksReal\<close> returns a result exactly when the side is not empty, the
  requested share count is positive and the sweep left at most \<open>1e-9\<close> shares unfilled;
  otherwise it returns null.  The shares consumed are the smaller of the request and the
  depth the sweep can reach, so a non-null result has consumed the request up to \<open>1e-9\<close>
  shares, and exactly the request whenever the reachable depth covers it.
\<close>

theorem C3_fill_within_tolerance:
  "(costToBuySharesFromAsks asks shares fee \<noteq> None \<longleftrightarrow>
      asks \<noteq> [] \<and> 0 < shares \<and> shares - consumedAsks asks shares \<le> 1 / 10 ^ 9)
   \<and> (proceedsFromSellingSharesToBids bids shares fee minPrice01 \<noteq> None \<longleftrightarrow>
      bids \<noteq> [] \<and> 0 < shares \<and> shares - consumedBids bids minPrice01 shares \<le> 1 / 10 ^ 9)
   \<and> (costToBuySharesFromAsksReal asks shares maxPrice01 \<noteq> None \<longleftrightarrow>
      asks \<noteq> [] \<and> 0 < shares \<and> shares - consumedAsksReal asks maxPrice01 shares \<le> 1 / 10 ^ 9)
   \<and> (0 < shares \<longrightarrow>
        consumedAsks asks shares = min shares (posDepth asks)
      \<and> consumedBids bids minPrice01 shares = min shares (bidDepth minPrice01 bids)
      \<and> consumedAsksReal asks maxPrice01 shares = min shares (askDepthReal maxPrice01 asks))"
proof (intro conjI impI)
  show "costToBuySharesFromAsks asks shares fee \<noteq> None \<longleftrightarrow>
      asks \<noteq> [] \<and> 0 < shares \<and> shares - consumedAsks asks shares \<le> 1 / 10 ^ 9"
    by (auto simp: costToBuySharesFromAsks_def consumedAsks_def split: prod.splits)
  show "proceedsFromSellingSharesToBids bids shares fee minPrice01 \<noteq> None \<longleftrightarrow>
      bids \<noteq> [] \<and> 0 < shares \<and> shares - consumedBids bids minPrice01 shares \<le> 1 / 10 ^ 9"
    by (auto simp: proceedsFromSellingSharesToBids_def consumedBids_def split: prod.splits)
  have fr: "as_filledShares (sweepAsksReal asks maxPrice01 (askSweepInit shares))
       = shares - as_remaining (sweepAsksReal asks maxPrice01 (askSweepInit shares))"
    using sweepAsksReal_filled [of asks maxPrice01 "askSweepInit shares"]
    by (simp add: askSweepInit_def)
  show "costToBuySharesFromAsksReal asks shares maxPrice01 \<noteq> None \<longleftrightarrow>
      asks \<noteq> [] \<and> 0 < shares \<and> shares - consumedAsksReal asks maxPrice01 shares \<le> 1 / 10 ^ 9"
    unfolding consumedAsksReal_def fr
    by (auto simp: costToBuySharesFromAsksReal_def Let_def)
  assume s: "0 < shares"
  show "consumedAsks asks shares = min shares (posDepth asks)"
    unfolding consumedAsks_def using s sweepAsks_remaining [of shares asks 0 0]
    by (simp add: max_def min_def)
  show "consumedBids bids minPrice01 shares = min shares (bidDepth minPrice01 bids)"
    unfolding consumedBids_def using s sweepBids_remaining [of shares bids minPrice01 0 None]
    by (simp add: max_def min_def)
  show "consumedAsksReal asks maxPrice01 shares = min shares (askDepthReal maxPrice01 asks)"
    unfolding consumedAsksReal_def fr
    using s sweepAsksReal_remaining [of "askSweepInit shares" asks maxPrice01]
    by (simp add: askSweepInit_def max_def min_def)
qed

theorem C3_fill_within_tolerance_witness:
  "costToBuySharesFromAsks [\<lparr>price = 2/5, size_l = 3\<rparr>, \<lparr>price = 1/2, size_l = 4\<rparr>] 5 None \<noteq> None
   \<and> consumedAsks [\<lparr>price = 2/5, size_l = 3\<rparr>, \<lparr>price = 1/2, size_l = 4\<rparr>] 5 = 5
   \<and> costToBuySharesFromAsks [\<lparr>price = 2/5, size_l = 3\<rparr>, \<lparr>price = 1/2, size_l = 4\<rparr>] 8 None = None
   \<and> consumedAsks [\<lparr>price = 2/5, size_l = 3\<rparr>, \<lparr>price = 1/2, size_l = 4\<rparr>] 8 = 7"
proof -
  let ?asks = "[\<lparr>price = 2/5, size_l = 3\<rparr>, \<lparr>price = 1/2, size_l = 4\<rparr>]"
  have d: "posDepth ?asks = 7" by (simp add: posDepth_def)
  note t5 = C3_fill_within_tolerance [of ?asks 5 None "[]" 0 None]
  note t8 = C3_fill_within_tolerance [of ?asks 8 None "[]" 0 None]
  have c5: "consumedAsks ?asks 5 = 5" using t5 d by simp
  have c8: "consumedAsks ?asks 8 = 7" using t8 d by simp
  have a: "costToBuySharesFromAsks ?asks 5 None \<noteq> None" using t5 c5 by simp
  have b: "costToBuySharesFromAsks ?asks 8 None = None" using t8 c8 by simp
  from a b c5 c8 show ?thesis by simp
qed

text \<open>
  The claim as stated (a non-null result has consumed exactly the requested shares) fails
  inside the tolerance: one ask level of size \<open>0.9999999995\<close>, one share requested.
\<close>

theorem C3_partial_fill_counterexample:
  "costToBuySharesFromAsks [\<lparr>price = 1/2, size_l = 1999999999/2000000000\<rparr>] 1 None
      = Some \<lparr>bf_cost = 1999999999/4000000000, bf_maxPrice = 1/2\<rparr>
   \<and> consumedAsks [\<lparr>price = 1/2, size_l = 1999999999/2000000000\<rparr>] 1 = 1999999999/2000000000
   \<and> consumedAsks [\<lparr>price = 1/2, size_l = 1999999999/2000000000\<rparr>] 1 \<noteq> 1"
  by (simp add: costToBuySharesFromAsks_def consumedAsks_def feeOrZero_def)




section \<open>Properties of the strategies\<close>

subsection \<open>Arbitrage\<close>

lemma sweepAsks_done: "sweepAsks ls 0 c m = (0, c, m)"
  by (cases ls) auto

lemma costToBuy_first_level:
  assumes "0 < n" "n \<le> s"
  shows "costToBuySharesFromAsks (\<lparr>price = p, size_l = s\<rparr> # rest) n fee
     = Some \<lparr> bf_cost = n * p * (1 + feeOrZero fee / 10000), bf_maxPrice = p \<rparr>"
  using assms by (simp add: costToBuySharesFromAsks_def Let_def min_def sweepAsks_done)

lemma sumSizes_ge_first:
  assumes "\<forall>l\<in>set rest. 0 \<le> size_l l"
  shows "s \<le> sumSizes (\<lparr>price = p, size_l = s\<rparr> # rest)"
proof -
  have "0 \<le> sum_list (map size_l rest)" using assms by (induction rest) auto
  then show ?thesis by (simp add: sumSizes_sum_list)
qed

lemma searchStraddle_step_ok:
  assumes "l \<le> hi"
    and "costToBuySharesFromAsks up (of_int ((l + hi) div 2)) (Some uf) = Some u"
    and "costToBuySharesFromAsks down (of_int ((l + hi) div 2)) (Some df) = Some d"
    and "bf_cost u + bf_cost d \<le> B"
    and "minP \<le> (of_int ((l + hi) div 2) - (bf_cost u + bf_cost d)) * 100"
  shows "searchStraddle up down uf df B minP (of_int l) hi best
     = searchStraddle up down uf df B minP (of_int ((l + hi) div 2 + 1)) hi
         (Some \<lparr> sd_shares = (l + hi) div 2, sd_cost = bf_cost u + bf_cost d,
                  sd_profitCentsEach = (of_int ((l + hi) div 2) - (bf_cost u + bf_cost d)) * 100,
                  sd_upCost = bf_cost u, sd_downCost = bf_cost d,
                  sd_upMaxPrice = bf_maxPrice u, sd_downMaxPrice = bf_maxPrice d \<rparr>)"
  by (subst searchStraddle.simps) (use assms in \<open>simp add: floor_half Let_def\<close>)

lemma executePaperStraddle_atomic:
  "executePaperStraddle mi n cost (bal, pos) = (bal, pos)
   \<or> (pos = None \<and> cost \<le> bal \<and> 0 < cost
      \<and> fst (executePaperStraddle mi n cost (bal, pos)) = bal - cost
      \<and> (\<exists>p. snd (executePaperStraddle mi n cost (bal, pos)) = Some p
              \<and> ap_sharesPerSide p = n \<and> ap_totalCostUsdc p = cost))"
  by (simp add: executePaperStraddle_def executePaperDelta_def Let_def)

subsection \<open>Lag\<close>

lemma engineCallsMode_marksPositive:
  assumes "lx_up ctx = Some (summarizeOrderbook upBid upAsk)"
    and "lx_down ctx = Some (summarizeOrderbook downBid downAsk)"
    and "engineCallsMode (lx_up ctx) (lx_down ctx)"
  shows "marksPositive ctx"
  using assms
  by (auto simp: engineCallsMode_def marksPositive_def summarizeOrderbook_def computeMarkPrice_def)

lemma evalLagSignal_hard:
  assumes "mi_underlyingPrice (lx_market ctx) = Some spot" "0 < spot" "marksPositive ctx"
    and "feedDisagreementUsd ctx = Some d" "LAG_FEED_DISAGREE_USD_HARD < d"
  shows "lag_suggestedSide (evalLagSignal evalRest ctx st) = None
     \<and> lag_suggestedShares (evalLagSignal evalRest ctx st) = None
     \<and> lag_suggestedLimitPrice (evalLagSignal evalRest ctx st) = None
     \<and> lag_suggestedSpend (evalLagSignal evalRest ctx st) = None
     \<and> lag_open (evalLagSignal evalRest ctx st) = lag_open st"
  using assms
  by (simp add: evalLagSignal_def hardDisagreement_def Let_def pushSpotSample_def)

lemma maybeExitLag_keeps_suggestion:
  "lag_suggestedSide (snd (maybeExitLag ctx x (bal, st))) = lag_suggestedSide st
   \<and> lag_suggestedShares (snd (maybeExitLag ctx x (bal, st))) = lag_suggestedShares st
   \<and> lag_suggestedLimitPrice (snd (maybeExitLag ctx x (bal, st))) = lag_suggestedLimitPrice st"
  by (simp add: maybeExitLag_def Let_def split: option.splits)

lemma maybeExitLag_no_position:
  "lag_open st = None \<Longrightarrow> maybeExitLag ctx x (bal, st) = (bal, st)"
  by (simp add: maybeExitLag_def)

lemma maybeExitLag_same_position:
  "lag_open (snd (maybeExitLag ctx x (bal, st))) = Some p' \<Longrightarrow>
   \<exists>p. lag_open st = Some p
     \<and> p' \<lparr> lpo_stopHits := 0, lpo_mismatchLogged := False \<rparr>
        = p \<lparr> lpo_stopHits := 0, lpo_mismatchLogged := False \<rparr>"
  by (auto simp: maybeExitLag_def Let_def split: option.splits if_splits)

lemma maybeExecuteLag_no_suggestion:
  "lag_suggestedSide st = None \<Longrightarrow> maybeExecuteLag ctx y (bal, st) = (bal, st)"
  by (simp add: maybeExecuteLag_def Let_def)

lemma lagPaperEntry_balance:
  "fst (lagPaperEntry ctx s tok shares px ts sp fee (bal, st)) = bal
     \<and> lag_open (snd (lagPaperEntry ctx s tok shares px ts sp fee (bal, st))) = lag_open st
   \<or> (\<exists>fill. costToBuySharesFromAsks (sideAsks ctx s) shares (Some fee) = Some fill
         \<and> bf_cost fill \<le> bal
         \<and> fst (lagPaperEntry ctx s tok shares px ts sp fee (bal, st)) = bal - bf_cost fill)"
  by (auto simp: lagPaperEntry_def executePaperDelta_def split: option.splits)

lemma lagPaperEntry_nonneg:
  "0 \<le> bal \<Longrightarrow> 0 \<le> fst (lagPaperEntry ctx s tok shares px ts sp fee (bal, st))"
  using lagPaperEntry_balance [of ctx s tok shares px ts sp fee bal st] by auto

lemma maybeExecuteLag_shape:
  "fst (maybeExecuteLag ctx y (bal, st)) = bal
   \<or> (\<exists>s tok shares px ts sp fee st2.
         maybeExecuteLag ctx y (bal, st)
           = (if lx_PAPER_TRADING ctx
              then lagPaperEntry ctx s tok shares px ts sp fee (bal, st2)
              else lagLiveEntry ctx y s tok shares px ts sp fee (bal, st2)))"
  unfolding maybeExecuteLag_def Let_def
  by (simp split: option.splits prod.splits if_splits) blast

lemma maybeExecuteLag_paper_nonneg:
  assumes "lx_PAPER_TRADING ctx" "0 \<le> bal"
  shows "0 \<le> fst (maybeExecuteLag ctx y (bal, st))"
  using maybeExecuteLag_shape [of ctx y bal st] assms lagPaperEntry_nonneg by auto

subsection \<open>Certainty\<close>




lemma sweepBidsReal_inv:
  assumes "m * bw_filledShares st \<le> bw_weightedPriceSum st"
    and "0 \<le> bw_remaining st"
    and "\<forall>p. \<not> belowMin mp p \<longrightarrow> m \<le> p"
  shows "m * bw_filledShares (sweepBidsReal ls mp st) \<le> bw_weightedPriceSum (sweepBidsReal ls mp st)
     \<and> bw_filledShares (sweepBidsReal ls mp st) + bw_remaining (sweepBidsReal ls mp st)
         = bw_filledShares st + bw_remaining st
     \<and> 0 \<le> bw_remaining (sweepBidsReal ls mp st)"
  using assms(1,2)
proof (induction ls arbitrary: st)
  case Nil
  then show ?case by simp
next
  case (Cons l ls)
  show ?case
  proof (cases "bw_remaining st > 0 \<and> size_l l > 0 \<and> \<not> belowMin mp (price l)")
    case False
    then show ?thesis using Cons by auto
  next
    case True
    define t where "t = min (bw_remaining st) (size_l l)"
    define st' where "st' = \<lparr> bw_remaining = bw_remaining st - t,
            bw_gross = bw_gross st + t * price l,
            bw_minFilled = Some (price l),
            bw_weightedPriceSum = bw_weightedPriceSum st + t * price l,
            bw_filledShares = bw_filledShares st + t \<rparr>"
    have step: "sweepBidsReal (l # ls) mp st = sweepBidsReal ls mp st'"
      using True by (simp add: Let_def st'_def t_def)
    have t: "0 \<le> t" "t \<le> bw_remaining st" using True by (auto simp: t_def)
    have "m \<le> price l" using True assms(3) by blast
    then have "t * m \<le> t * price l" using t(1) by (rule mult_left_mono)
    then have "m * t \<le> t * price l" by (simp add: mult.commute)
    then have a: "m * bw_filledShares st' \<le> bw_weightedPriceSum st'"
      using Cons.prems(1) by (simp add: st'_def algebra_simps)
    have b: "0 \<le> bw_remaining st'" using t by (simp add: st'_def)
    from Cons.IH [OF a b] show ?thesis unfolding step by (simp add: st'_def)
  qed
qed

lemma proceedsReal_avgPrice:
  assumes "proceedsFromSellingSharesToBidsReal bids shares (Some mp) = Some sf"
    and "1 \<le> shares"
  shows "\<exists>p. rs_avgPrice sf = Some p \<and> mp - PRICE_EPS \<le> p"
proof -
  define st0 where "st0 = \<lparr> bw_remaining = shares, bw_gross = 0, bw_minFilled = None,
                     bw_weightedPriceSum = 0, bw_filledShares = (0::rat) \<rparr>"
  define st where "st = sweepBidsReal bids (Some mp) st0"
  have inv: "(mp - PRICE_EPS) * bw_filledShares st \<le> bw_weightedPriceSum st
     \<and> bw_filledShares st + bw_remaining st = bw_filledShares st0 + bw_remaining st0
     \<and> 0 \<le> bw_remaining st"
    unfolding st_def
    by (rule sweepBidsReal_inv) (use assms(2) in \<open>auto simp: st0_def belowMin_def\<close>)
  have rem: "bw_remaining st \<le> 1 / 10 ^ 9"
    and avg: "rs_avgPrice sf = (if bw_filledShares st > 0
                            then Some (bw_weightedPriceSum st / bw_filledShares st)
                            else bw_minFilled st)"
    using assms(1)
    by (auto simp: proceedsFromSellingSharesToBidsReal_def Let_def st_def st0_def split: if_splits)
  have "bw_filledShares st = shares - bw_remaining st" using inv by (simp add: st0_def)
  then have f: "0 < bw_filledShares st" using rem assms(2) by simp
  have "mp - PRICE_EPS \<le> bw_weightedPriceSum st / bw_filledShares st"
    using inv f by (simp add: pos_le_divide_eq)
  then show ?thesis using avg f by simp
qed

lemma findBest_fold_lower:
  assumes "foldl (\<lambda>bestPrice l.
               if \<not> size_l l > 0 then bestPrice
               else if price l \<le> hiP \<and> price l \<ge> loP
                 then (case bestPrice of
                         None \<Rightarrow> Some (price l)
                       | Some b \<Rightarrow> if price l > b then Some (price l) else bestPrice)
                 else bestPrice) acc bids = Some bp"
    and "\<forall>a. acc = Some a \<longrightarrow> loP \<le> a"
  shows "loP \<le> bp"
  using assms
proof (induction bids arbitrary: acc)
  case Nil
  then show ?case by simp
next
  case (Cons l ls)
  show ?case
    by (rule Cons.IH [OF Cons.prems(1) [simplified]])
       (use Cons.prems(2) in \<open>auto split: option.splits if_splits\<close>)
qed

lemma findBestAvailableSellPrice_lower:
  "findBestAvailableSellPrice bids target below = Some bp \<Longrightarrow> target - below - PRICE_EPS \<le> bp"
  unfolding findBestAvailableSellPrice_def Let_def
  by (erule findBest_fold_lower) simp

lemma executePaperSell_stop_state:
  assumes "rs_avgPrice sf = Some p"
  shows "cs_intervalState (snd (executePaperSell ctx (Some pos) (Some sf) StopLoss (bal, cst)))
       = (cs_intervalState cst) \<lparr> is_lastExitType := Some StopLoss,
                                  is_lastStopLossExitPrice := Some p,
                                  is_requireReentryUntilResolved := True \<rparr>
     \<and> cs_open (snd (executePaperSell ctx (Some pos) (Some sf) StopLoss (bal, cst))) = None"
  using assms by (simp add: executePaperSell_def Let_def)

lemma getCurrentEntryRange_same_interval:
  assumes "truthy (mi_marketId (cx_market ctx))"
    and "is_marketId (cs_intervalState cst) = mi_marketId (cx_market ctx)"
  shows "cs_intervalState (snd (getCurrentEntryRange ctx cst)) = cs_intervalState cst"
    and "cs_open (snd (getCurrentEntryRange ctx cst)) = cs_open cst"
    and "is_lastExitType (cs_intervalState cst) = Some StopLoss \<Longrightarrow>
         is_lastStopLossExitPrice (cs_intervalState cst) = Some p \<Longrightarrow>
         fst (getCurrentEntryRange ctx cst)
           = \<lparr> er_min = max (1 / 100) (p - STOP_LOSS_BUFFER), er_max = p + STOP_LOSS_BUFFER \<rparr>"
    and "is_lastExitType (cs_intervalState cst) = None \<Longrightarrow>
         fst (getCurrentEntryRange ctx cst) = defaultEntryRange"
  using assms
  by (auto simp: getCurrentEntryRange_def Let_def STOP_LOSS_BUFFER_def split: option.splits)

lemma canEnterPosition_state:
  "snd (canEnterPosition ctx s tRem bal cst) = cst
   \<or> snd (canEnterPosition ctx s tRem bal cst) = snd (getCurrentEntryRange ctx cst)"
  by (cases "getCurrentEntryRange ctx cst")
     (auto simp: canEnterPosition_def Let_def split: option.splits)

lemma executePaperBuy_cases:
  "executePaperBuy ctx tid s tok shares fill mp cap (bal, cst) = (bal, cst)
   \<or> (\<exists>f. fill = Some f \<and> rf_cost f + ORDER_GAS_USDC \<le> bal
        \<and> fst (executePaperBuy ctx tid s tok shares fill mp cap (bal, cst))
            = bal - (rf_cost f + ORDER_GAS_USDC)
        \<and> (\<exists>pos. cs_open (snd (executePaperBuy ctx tid s tok shares fill mp cap (bal, cst))) = Some pos
              \<and> cp_side pos = s)
        \<and> cs_intervalState (snd (executePaperBuy ctx tid s tok shares fill mp cap (bal, cst)))
            = (cs_intervalState cst) \<lparr> is_entryCount := is_entryCount (cs_intervalState cst) + 1,
                                       is_requireReentryUntilResolved := False,
                                       is_lastExitType := None \<rparr>)"
  by (auto simp: executePaperBuy_def executePaperDelta_def Let_def split: option.splits)

lemma executePaperBuy_opens:
  assumes "cs_open cst = None" "0 < shares" "rf_cost f + ORDER_GAS_USDC \<le> bal"
  shows "fst (executePaperBuy ctx tid s tok shares (Some f) mp cap (bal, cst))
           = bal - (rf_cost f + ORDER_GAS_USDC)"
    and "\<exists>pos. cs_open (snd (executePaperBuy ctx tid s tok shares (Some f) mp cap (bal, cst))) = Some pos
           \<and> cp_side pos = s \<and> cp_shares pos = shares"
    and "cs_intervalState (snd (executePaperBuy ctx tid s tok shares (Some f) mp cap (bal, cst)))
           = (cs_intervalState cst) \<lparr> is_entryCount := is_entryCount (cs_intervalState cst) + 1,
                                      is_requireReentryUntilResolved := False,
                                      is_lastExitType := None \<rparr>"
  using assms by (simp_all add: executePaperBuy_def executePaperDelta_def Let_def)

lemma executePaperBuy_noop:
  assumes "\<not> (cs_open cst = None \<and> 0 < shares \<and> (\<exists>f. fill = Some f \<and> rf_cost f + ORDER_GAS_USDC \<le> bal))"
  shows "executePaperBuy ctx tid s tok shares fill mp cap (bal, cst) = (bal, cst)"
  using assms by (auto simp: executePaperBuy_def Let_def split: option.splits)

text \<open>
  The live functions write the state as soon as the order has been posted: whatever the
  exchange did with the order, \<open>executeLiveSell\<close> records the limit price of a stop-loss
  order as the exit price and \<open>executeLiveBuy\<close> records a position and clears the re-entry
  requirement.
\<close>

lemma executeLiveSell_posted:
  assumes "fst (executeLiveSell ctx opn tok (Some limit) proceeds StopLoss outcome st) = CertPosted oc"
  shows "cs_intervalState (lv_cert (snd (executeLiveSell ctx opn tok (Some limit) proceeds StopLoss outcome st)))
       = (cs_intervalState (lv_cert st)) \<lparr> is_lastExitType := Some StopLoss,
                                            is_lastStopLossExitPrice := Some limit,
                                            is_requireReentryUntilResolved := True \<rparr>"
    and "cs_open (lv_cert (snd (executeLiveSell ctx opn tok (Some limit) proceeds StopLoss outcome st))) = None"
    and "oc = outcome"
  using assms by (auto simp: executeLiveSell_def Let_def split: if_splits)

lemma executeLiveBuy_posted:
  assumes "fst (executeLiveBuy ctx enter tid limit refreshed outcome st) = CertPosted oc"
  shows "is_requireReentryUntilResolved
           (cs_intervalState (lv_cert (snd (executeLiveBuy ctx enter tid limit refreshed outcome st)))) = False"
    and "is_lastExitType
           (cs_intervalState (lv_cert (snd (executeLiveBuy ctx enter tid limit refreshed outcome st)))) = None"
    and "map_option cp_side (cs_open (lv_cert (snd (executeLiveBuy ctx enter tid limit refreshed outcome st))))
           = Some (ad_side enter)"
    and "oc = outcome"
  using assms
  by (auto simp: executeLiveBuy_def nextTradeId_def Let_def split: if_splits option.splits prod.splits)

section \<open>Claims about the strategies\<close>

text \<open>
  C4 (both legs or none).  The paper path is atomic (\<open>executePaperStraddle_atomic\<close>: either
  nothing changes, or the combined cost is deducted once and one position of
  \<open>sharesPerSide\<close> shares per side is opened).  The live path posts the Up order and then
  the Down order, each fill-or-kill, and does not read the first answer before posting the
  second: when the exchange fills the Up order and kills the Down order, the account holds
  10 Up shares and no Down shares, a single-leg entry.
\<close>

theorem C4_live_single_leg:
  "executeLiveStraddle
     \<lparr> le_PAPER_TRADING = False, le_ENABLE_LIVE_ORDERS = True,
       le_upTokenId = Some ''up-token'', le_downTokenId = Some ''down-token'',
       le_clobCreds = True, le_balanceUsdc = Some 100, le_allowanceUsdc = Some 100 \<rparr>
     \<lparr> sd_shares = 10, sd_cost = 19/2, sd_profitCentsEach = 50,
       sd_upCost = 4, sd_downCost = 11/2, sd_upMaxPrice = 2/5, sd_downMaxPrice = 11/20 \<rparr>
     Filled Killed \<lparr> h_up = 0, h_down = 0 \<rparr>
   = (LivePosted Filled Killed, \<lparr> h_up = 10, h_down = 0 \<rparr>)"
  by (simp add: executeLiveStraddle_def liveCanSpendUsdc_def truthy_def fokBuy_def)

theorem C4_live_single_leg_witness:
  "h_up (snd (executeLiveStraddle
     \<lparr> le_PAPER_TRADING = False, le_ENABLE_LIVE_ORDERS = True,
       le_upTokenId = Some ''up-token'', le_downTokenId = Some ''down-token'',
       le_clobCreds = True, le_balanceUsdc = Some 100, le_allowanceUsdc = Some 100 \<rparr>
     \<lparr> sd_shares = 10, sd_cost = 19/2, sd_profitCentsEach = 50,
       sd_upCost = 4, sd_downCost = 11/2, sd_upMaxPrice = 2/5, sd_downMaxPrice = 11/20 \<rparr>
     Filled Killed \<lparr> h_up = 0, h_down = 0 \<rparr>)) = 10
   \<and> h_down (snd (executeLiveStraddle
     \<lparr> le_PAPER_TRADING = False, le_ENABLE_LIVE_ORDERS = True,
       le_upTokenId = Some ''up-token'', le_downTokenId = Some ''down-token'',
       le_clobCreds = True, le_balanceUsdc = Some 100, le_allowanceUsdc = Some 100 \<rparr>
     \<lparr> sd_shares = 10, sd_cost = 19/2, sd_profitCentsEach = 50,
       sd_upCost = 4, sd_downCost = 11/2, sd_upMaxPrice = 2/5, sd_downMaxPrice = 11/20 \<rparr>
     Filled Killed \<lparr> h_up = 0, h_down = 0 \<rparr>)) = 0"
  using C4_live_single_leg by simp

text \<open>
  C5 (arbitrage example).  Up best ask 0.40, Down best ask 0.55, at least 10 shares at each
  best level (the default budget of 10 buys \<open>floor(10 / 0.95) = 10\<close> straddles), sizes of
  the other levels not negative, both fee rates zero, default settings:
  \<open>computeEqualProfitStraddle\<close> returns a proposal of 10 shares per side costing 9.50, so
  the profit per share is 0.05 (and the reported \<open>profitCentsEach\<close> is 50).
\<close>

theorem C5_arbitrage_example:
  assumes "10 \<le> upSize" "10 \<le> downSize"
    and "\<forall>l\<in>set upRest. 0 \<le> size_l l" "\<forall>l\<in>set downRest. 0 \<le> size_l l"
  shows "(case computeEqualProfitStraddle
                 (\<lparr>price = 2/5, size_l = upSize\<rparr> # upRest)
                 (\<lparr>price = 11/20, size_l = downSize\<rparr> # downRest)
                 (Some 0) (Some 0) STRADDLE_MAX_USDC STRADDLE_MIN_SHARES STRADDLE_MIN_PROFIT_CENTS of
            None \<Rightarrow> False
          | Some sd \<Rightarrow>
              0 < sd_shares sd
              \<and> 5 / 100 \<le> (of_int (sd_shares sd) - sd_cost sd) / of_int (sd_shares sd)
              \<and> 5 \<le> sd_profitCentsEach sd)
       \<and> computeEqualProfitStraddle
           (\<lparr>price = 2/5, size_l = upSize\<rparr> # upRest) (\<lparr>price = 11/20, size_l = downSize\<rparr> # downRest)
           (Some 0) (Some 0) STRADDLE_MAX_USDC STRADDLE_MIN_SHARES STRADDLE_MIN_PROFIT_CENTS
         = Some \<lparr> sd_shares = 10, sd_cost = 19/2, sd_profitCentsEach = 50,
                  sd_upCost = 4, sd_downCost = 11/2, sd_upMaxPrice = 2/5, sd_downMaxPrice = 11/20 \<rparr>"
proof -
  let ?up = "\<lparr>price = 2/5, size_l = upSize\<rparr> # upRest"
  let ?down = "\<lparr>price = 11/20, size_l = downSize\<rparr> # downRest"
  have su: "10 \<le> sumSizes ?up" using sumSizes_ge_first [OF assms(3), of upSize "2/5"] assms(1) by linarith
  have sd: "10 \<le> sumSizes ?down" using sumSizes_ge_first [OF assms(4), of downSize "11/20"] assms(2) by linarith
  have mf: "10 \<le> \<lfloor>min (sumSizes ?up) (sumSizes ?down)\<rfloor>" using su sd by (simp add: le_floor_iff)
  have up: "costToBuySharesFromAsks ?up (of_int n) (Some 0)
     = Some \<lparr> bf_cost = of_int n * (2/5), bf_maxPrice = 2/5 \<rparr>" if "0 < n" "n \<le> 10" for n
  proof -
    have "rat_of_int n \<le> rat_of_int 10" using that by (simp only: of_int_le_iff)
    then have "rat_of_int n \<le> upSize" using assms(1) by simp
    then show ?thesis using that costToBuy_first_level [of "of_int n" upSize "2/5" upRest "Some 0"]
      by (simp add: feeOrZero_def)
  qed
  have down: "costToBuySharesFromAsks ?down (of_int n) (Some 0)
     = Some \<lparr> bf_cost = of_int n * (11/20), bf_maxPrice = 11/20 \<rparr>" if "0 < n" "n \<le> 10" for n
  proof -
    have "rat_of_int n \<le> rat_of_int 10" using that by (simp only: of_int_le_iff)
    then have "rat_of_int n \<le> downSize" using assms(2) by simp
    then show ?thesis using that costToBuy_first_level [of "of_int n" downSize "11/20" downRest "Some 0"]
      by (simp add: feeOrZero_def)
  qed
  have s1: "searchStraddle ?up ?down 0 0 10 (1/4) (of_int 1) 10 None
      = searchStraddle ?up ?down 0 0 10 (1/4) (of_int 6) 10
          (Some \<lparr> sd_shares = 5, sd_cost = 19/4, sd_profitCentsEach = 25,
                  sd_upCost = 2, sd_downCost = 11/4, sd_upMaxPrice = 2/5, sd_downMaxPrice = 11/20 \<rparr>)"
    using searchStraddle_step_ok [of 1 10 ?up 0 _ ?down 0 _ 10 "1/4" None] up [of 5] down [of 5]
    by simp
  have s2: "searchStraddle ?up ?down 0 0 10 (1/4) (of_int 6) 10 best
      = searchStraddle ?up ?down 0 0 10 (1/4) (of_int 9) 10
          (Some \<lparr> sd_shares = 8, sd_cost = 38/5, sd_profitCentsEach = 40,
                  sd_upCost = 16/5, sd_downCost = 22/5, sd_upMaxPrice = 2/5, sd_downMaxPrice = 11/20 \<rparr>)"
    for best
    using searchStraddle_step_ok [of 6 10 ?up 0 _ ?down 0 _ 10 "1/4" best] up [of 8] down [of 8]
    by simp
  have s3: "searchStraddle ?up ?down 0 0 10 (1/4) (of_int 9) 10 best
      = searchStraddle ?up ?down 0 0 10 (1/4) (of_int 10) 10
          (Some \<lparr> sd_shares = 9, sd_cost = 171/20, sd_profitCentsEach = 45,
                  sd_upCost = 18/5, sd_downCost = 99/20, sd_upMaxPrice = 2/5, sd_downMaxPrice = 11/20 \<rparr>)"
    for best
    using searchStraddle_step_ok [of 9 10 ?up 0 _ ?down 0 _ 10 "1/4" best] up [of 9] down [of 9]
    by simp
  have s4: "searchStraddle ?up ?down 0 0 10 (1/4) (of_int 10) 10 best
      = searchStraddle ?up ?down 0 0 10 (1/4) (of_int 11) 10
          (Some \<lparr> sd_shares = 10, sd_cost = 19/2, sd_profitCentsEach = 50,
                  sd_upCost = 4, sd_downCost = 11/2, sd_upMaxPrice = 2/5, sd_downMaxPrice = 11/20 \<rparr>)"
    for best
    using searchStraddle_step_ok [of 10 10 ?up 0 _ ?down 0 _ 10 "1/4" best] up [of 10] down [of 10]
    by simp
  have s5: "searchStraddle ?up ?down 0 0 10 (1/4) (of_int 11) 10 best = best" for best
    by (subst searchStraddle.simps) simp
  have loop: "searchStraddle ?up ?down 0 0 10 (1/4) 1 10 None
      = Some \<lparr> sd_shares = 10, sd_cost = 19/2, sd_profitCentsEach = 50,
                  sd_upCost = 4, sd_downCost = 11/2, sd_upMaxPrice = 2/5, sd_downMaxPrice = 11/20 \<rparr>"
    using s1 by (simp only: s2 s3 s4 s5 of_int_1)
  have fl: "\<lfloor>(200::rat) / 19\<rfloor> = 10" by (rule floor_unique) simp_all
  have "(1::int) \<le> \<lfloor>min (sumSizes ?up) (sumSizes ?down)\<rfloor>" using mf by linarith
  then have nm: "\<not> rat_of_int \<lfloor>min (sumSizes ?up) (sumSizes ?down)\<rfloor> < 1"
    by (simp only: not_less of_int_1_le_iff)
  have mt: "min \<lfloor>min (sumSizes ?up) (sumSizes ?down)\<rfloor> 10 = (10::int)"
    using mf by simp
  have "computeEqualProfitStraddle ?up ?down (Some 0) (Some 0) 10 1 (1/4)
      = searchStraddle ?up ?down 0 0 10 (1/4) 1 10 None"
    unfolding computeEqualProfitStraddle_def Let_def feeOrZero_def clampInt_def
    using nm mt by (simp add: fl)
  then show ?thesis
    by (simp add: STRADDLE_MAX_USDC_def STRADDLE_MIN_USDC_def STRADDLE_MIN_SHARES_def
        STRADDLE_MIN_PROFIT_CENTS_def loop)
qed

theorem C5_arbitrage_example_witness:
  "computeEqualProfitStraddle [\<lparr>price = 2/5, size_l = 100\<rparr>] [\<lparr>price = 11/20, size_l = 100\<rparr>]
       (Some 0) (Some 0) STRADDLE_MAX_USDC STRADDLE_MIN_SHARES STRADDLE_MIN_PROFIT_CENTS
     = Some \<lparr> sd_shares = 10, sd_cost = 19/2, sd_profitCentsEach = 50,
              sd_upCost = 4, sd_downCost = 11/2, sd_upMaxPrice = 2/5, sd_downMaxPrice = 11/20 \<rparr>"
proof -
  have h1: "(10::rat) \<le> 100" by simp
  have h3: "\<forall>l\<in>set ([]::level list). 0 \<le> size_l l" by simp
  from C5_arbitrage_example [OF h1 h1 h3 h3] show ?thesis by blast
qed




text \<open>
  The paper path of the re-entry band.  Within an interval (the market id is known and
  unchanged), after the paper stop-loss exit of a position of at least one share, sold at
  the best available bid price the stop-loss search found: the sale has an average price
  \<open>p\<close>, the required band is \<open>[p - STOP_LOSS_BUFFER, p + STOP_LOSS_BUFFER]\<close> and not the
  default band; entry attempts on either side leave it in place; a paper buy of a positive
  share count whose cost is within the balance opens a position on the side it is given,
  Up or Down, and the band is the default one again; every other paper buy changes
  nothing.
\<close>

lemma paper_reentry_band_after_stop_loss:
  assumes "truthy (mi_marketId (cx_market ctx))"
    and "is_marketId (cs_intervalState cst) = mi_marketId (cx_market ctx)"
    and "findBestAvailableSellPrice bids STOP_LOSS_PRICE STOP_LOSS_BUFFER = Some bestAvailablePrice"
    and "proceedsFromSellingSharesToBidsReal bids (cp_shares pos) (Some bestAvailablePrice) = Some sf"
    and "1 \<le> cp_shares pos"
    and "executePaperSell ctx (Some pos) (Some sf) StopLoss (bal, cst) = (bal1, cst1)"
  shows "\<exists>p. rs_avgPrice sf = Some p
     \<and> fst (getCurrentEntryRange ctx cst1)
          = \<lparr> er_min = p - STOP_LOSS_BUFFER, er_max = p + STOP_LOSS_BUFFER \<rparr>
     \<and> fst (getCurrentEntryRange ctx cst1) \<noteq> defaultEntryRange
     \<and> (\<forall>s tRem. fst (getCurrentEntryRange ctx (snd (canEnterPosition ctx s tRem bal1 cst1)))
                   = fst (getCurrentEntryRange ctx cst1))
     \<and> (\<forall>tid s tok shares f mp cap.
           0 < shares \<and> rf_cost f + ORDER_GAS_USDC \<le> bal1 \<longrightarrow>
             fst (executePaperBuy ctx tid s tok shares (Some f) mp cap (bal1, cst1))
               = bal1 - (rf_cost f + ORDER_GAS_USDC)
           \<and> map_option cp_side
                 (cs_open (snd (executePaperBuy ctx tid s tok shares (Some f) mp cap (bal1, cst1))))
               = Some s
           \<and> fst (getCurrentEntryRange ctx
                     (snd (executePaperBuy ctx tid s tok shares (Some f) mp cap (bal1, cst1))))
               = defaultEntryRange)
     \<and> (\<forall>tid s tok shares fill mp cap.
           \<not> (0 < shares \<and> (\<exists>f. fill = Some f \<and> rf_cost f + ORDER_GAS_USDC \<le> bal1)) \<longrightarrow>
             executePaperBuy ctx tid s tok shares fill mp cap (bal1, cst1) = (bal1, cst1))"
proof -
  from proceedsReal_avgPrice [OF assms(4,5)]
  obtain p where p: "rs_avgPrice sf = Some p" "bestAvailablePrice - PRICE_EPS \<le> p" by blast
  have "STOP_LOSS_PRICE - STOP_LOSS_BUFFER - PRICE_EPS \<le> bestAvailablePrice"
    by (rule findBestAvailableSellPrice_lower [OF assms(3)])
  then have plow: "733 / 1000 \<le> p"
    using p(2) by (simp add: STOP_LOSS_PRICE_def STOP_LOSS_BUFFER_def PRICE_EPS_def)
  have is1: "cs_intervalState cst1 = (cs_intervalState cst)
        \<lparr> is_lastExitType := Some StopLoss, is_lastStopLossExitPrice := Some p,
          is_requireReentryUntilResolved := True \<rparr>"
    and open1: "cs_open cst1 = None"
    using executePaperSell_stop_state [OF p(1), of ctx pos bal cst] assms(6) by simp_all
  have same1: "is_marketId (cs_intervalState cst1) = mi_marketId (cx_market ctx)"
    using is1 assms(2) by simp
  have mx: "max (1 / 100) (p - STOP_LOSS_BUFFER) = p - STOP_LOSS_BUFFER"
    using plow by (simp add: STOP_LOSS_BUFFER_def max_def)
  have band_of: "fst (getCurrentEntryRange ctx c)
      = \<lparr> er_min = p - STOP_LOSS_BUFFER, er_max = p + STOP_LOSS_BUFFER \<rparr>"
    if c: "cs_intervalState c = cs_intervalState cst1" for c
  proof -
    have m: "is_marketId (cs_intervalState c) = mi_marketId (cx_market ctx)"
      unfolding c by (rule same1)
    have "fst (getCurrentEntryRange ctx c)
      = \<lparr> er_min = max (1 / 100) (p - STOP_LOSS_BUFFER), er_max = p + STOP_LOSS_BUFFER \<rparr>"
      by (rule getCurrentEntryRange_same_interval(3) [OF assms(1) m]) (simp_all add: c is1)
    then show ?thesis unfolding mx .
  qed
  have band: "fst (getCurrentEntryRange ctx cst1)
      = \<lparr> er_min = p - STOP_LOSS_BUFFER, er_max = p + STOP_LOSS_BUFFER \<rparr>"
    by (rule band_of) simp
  have nd: "fst (getCurrentEntryRange ctx cst1) \<noteq> defaultEntryRange"
  proof
    assume "fst (getCurrentEntryRange ctx cst1) = defaultEntryRange"
    then have "p - STOP_LOSS_BUFFER = ENTRY_PRICE_MIN" "p + STOP_LOSS_BUFFER = ENTRY_PRICE_MAX"
      unfolding band defaultEntryRange_def by simp_all
    then show False
      by (simp add: STOP_LOSS_BUFFER_def ENTRY_PRICE_MIN_def ENTRY_PRICE_MAX_def)
  qed
  have attempts: "fst (getCurrentEntryRange ctx (snd (canEnterPosition ctx s tRem bal1 cst1)))
                   = fst (getCurrentEntryRange ctx cst1)" for s tRem
  proof -
    have "cs_intervalState (snd (canEnterPosition ctx s tRem bal1 cst1)) = cs_intervalState cst1"
      using canEnterPosition_state [of ctx s tRem bal1 cst1]
        getCurrentEntryRange_same_interval(1) [OF assms(1) same1]
      by auto
    from band_of [OF this] show ?thesis unfolding band .
  qed
  have buys: "fst (executePaperBuy ctx tid s tok shares (Some f) mp cap (bal1, cst1))
               = bal1 - (rf_cost f + ORDER_GAS_USDC)
           \<and> map_option cp_side
                 (cs_open (snd (executePaperBuy ctx tid s tok shares (Some f) mp cap (bal1, cst1))))
               = Some s
           \<and> fst (getCurrentEntryRange ctx
                     (snd (executePaperBuy ctx tid s tok shares (Some f) mp cap (bal1, cst1))))
               = defaultEntryRange"
    if ok: "0 < shares \<and> rf_cost f + ORDER_GAS_USDC \<le> bal1" for tid s tok shares f mp cap
  proof -
    define c2 where "c2 = snd (executePaperBuy ctx tid s tok shares (Some f) mp cap (bal1, cst1))"
    from ok have sh: "0 < shares" and co: "rf_cost f + ORDER_GAS_USDC \<le> bal1" by simp_all
    note o = executePaperBuy_opens [OF open1 sh co, of ctx tid s tok mp cap]
    have i: "cs_intervalState c2
            = (cs_intervalState cst1) \<lparr> is_entryCount := is_entryCount (cs_intervalState cst1) + 1,
                                       is_requireReentryUntilResolved := False,
                                       is_lastExitType := None \<rparr>"
      unfolding c2_def by (rule o(3))
    have m2: "is_marketId (cs_intervalState c2) = mi_marketId (cx_market ctx)"
      using i same1 by simp
    have "fst (getCurrentEntryRange ctx c2) = defaultEntryRange"
      by (rule getCurrentEntryRange_same_interval(4) [OF assms(1) m2]) (simp add: i)
    moreover have "map_option cp_side (cs_open c2) = Some s"
      using o(2) unfolding c2_def by auto
    ultimately show ?thesis using o(1) unfolding c2_def by simp
  qed
  have noops: "executePaperBuy ctx tid s tok shares fill mp cap (bal1, cst1) = (bal1, cst1)"
    if "\<not> (0 < shares \<and> (\<exists>f. fill = Some f \<and> rf_cost f + ORDER_GAS_USDC \<le> bal1))"
    for tid s tok shares fill mp cap
    by (rule executePaperBuy_noop) (use that in blast)
  show ?thesis using p(1) band nd attempts buys noops by blast
qed

text \<open>
  C7 (re-entry band).  The paper path does what the claim says
  (\<open>paper_reentry_band_after_stop_loss\<close>).  The live path does not wait for a successful
  re-entry: \<open>executeLiveBuy\<close> posts a fill-or-kill buy order and, without reading the
  answer, records a position and clears the re-entry requirement (\<open>executeLiveBuy_posted\<close>).
  On the tick below the stop-loss of an Up position of 10 shares is triggered (mark 0.75)
  and the position is sold by a live order with limit 0.745, after which the required band
  is \<open>[0.73, 0.76]\<close>; on the next tick \<open>canEnterPosition\<close> admits a re-entry of 62 Up
  shares at 0.755, the exchange kills the buy order, and the account holds no shares: yet
  the mode records an open Up position of 62 shares and the required band is the default
  band again.
\<close>

theorem C7_live_band_cleared_by_killed_order:
  "fst (checkTakeProfit liveCtx (demoPosition Up 10)) = False
   \<and> checkStopLoss liveCtx (cs_open (lv_cert liveHolding)) = (True, Some (3 / 4))
   \<and> findBestAvailableSellPrice (cx_upBidsLevels liveCtx) STOP_LOSS_PRICE STOP_LOSS_BUFFER
        = Some (149 / 200)
   \<and> map_option rs_proceeds
        (proceedsFromSellingSharesToBidsReal (cx_upBidsLevels liveCtx) (cp_shares (demoPosition Up 10))
           (Some (149 / 200))) = Some (1482401 / 200000)
   \<and> fst (executeLiveSell liveCtx (demoPosition Up 10) (tokenIdOf liveCtx Up) (Some (149 / 200))
            (Some (1482401 / 200000)) StopLoss Filled liveHolding) = CertPosted Filled
   \<and> lv_collateral liveStopped
        = \<lparr> col_balanceUsdc = Some (9482401 / 200000), col_allowanceUsdc = Some 1000 \<rparr>
   \<and> lv_holdings liveStopped = \<lparr> h_up = 0, h_down = 0 \<rparr>
   \<and> fst (getCurrentEntryRange liveCtxAfter (lv_cert liveStopped))
        = \<lparr> er_min = 73 / 100, er_max = 19 / 25 \<rparr>
   \<and> canEnterPosition liveCtxAfter Up (timeRemainingSec (cx_market liveCtxAfter)) 0 (lv_cert liveStopped)
        = (Admit liveAdmitted, lv_cert liveStopped)
   \<and> fst (executeLiveBuy liveCtxAfter liveAdmitted (Some (fst (nextTradeId (lv_cert liveStopped))))
            (Some (er_max (ad_entryRange liveAdmitted))) None Killed
            (liveStopped \<lparr> lv_cert := snd (nextTradeId (lv_cert liveStopped)) \<rparr>)) = CertPosted Killed
   \<and> lv_holdings liveReentered = \<lparr> h_up = 0, h_down = 0 \<rparr>
   \<and> map_option cp_side (cs_open (lv_cert liveReentered)) = Some Up
   \<and> map_option cp_shares (cs_open (lv_cert liveReentered)) = Some 62
   \<and> is_requireReentryUntilResolved (cs_intervalState (lv_cert liveReentered)) = False
   \<and> fst (getCurrentEntryRange liveCtxAfter (lv_cert liveReentered)) = defaultEntryRange"
  by code_simp

theorem C7_live_band_cleared_by_killed_order_witness:
  "lv_holdings liveReentered = \<lparr> h_up = 0, h_down = 0 \<rparr>
   \<and> fst (getCurrentEntryRange liveCtxAfter (lv_cert liveStopped))
        = \<lparr> er_min = 73 / 100, er_max = 19 / 25 \<rparr>
   \<and> fst (getCurrentEntryRange liveCtxAfter (lv_cert liveReentered)) = defaultEntryRange"
  using C7_live_band_cleared_by_killed_order by simp

text \<open>
  The paper path on a concrete tick: the stop-loss of 10 Down shares is sold at 0.745, the
  band becomes \<open>[0.73, 0.76]\<close>, and a paper buy of 10 shares restores the default band, on
  the Up side as on the Down side.
\<close>

lemma paper_reentry_band_example:
  "fst (getCurrentEntryRange paperCtx (snd paperStopped)) = \<lparr> er_min = 73 / 100, er_max = 19 / 25 \<rparr>
   \<and> map_option cp_side
        (cs_open (snd (executePaperBuy paperCtx 2 Up (Some ''up-token'') 10 (Some paperFill) (19 / 25)
                         (fst paperStopped) paperStopped))) = Some Up
   \<and> fst (getCurrentEntryRange paperCtx
             (snd (executePaperBuy paperCtx 2 Up (Some ''up-token'') 10 (Some paperFill) (19 / 25)
                     (fst paperStopped) paperStopped))) = defaultEntryRange
   \<and> map_option cp_side
        (cs_open (snd (executePaperBuy paperCtx 2 Down (Some ''down-token'') 10 (Some paperFill) (19 / 25)
                         (fst paperStopped) paperStopped))) = Some Down
   \<and> fst (getCurrentEntryRange paperCtx
             (snd (executePaperBuy paperCtx 2 Down (Some ''down-token'') 10 (Some paperFill) (19 / 25)
                     (fst paperStopped) paperStopped))) = defaultEntryRange"
proof -
  let ?cst = "demoCertState freshInterval (demoCandles (1/5) (13/50) 1700000090000 (1/5))
                  (demoCandles (4/5) (3/4) 1700000090000 (41/50))"
  let ?bids = "[\<lparr> price = 149 / 200, size_l = 100 \<rparr>]"
  let ?sf = "\<lparr> rs_shares = 10, rs_gross = 149 / 20, rs_fee = 7599 / 200000,
              rs_proceeds = 1482401 / 200000, rs_minFilledPrice = Some (149 / 200),
              rs_avgPrice = Some (149 / 200) \<rparr>"
  have h1: "truthy (mi_marketId (cx_market paperCtx))"
    by (simp add: paperCtx_def demoCertCtx_def demoMarket_def truthy_def)
  have h2: "is_marketId (cs_intervalState ?cst) = mi_marketId (cx_market paperCtx)"
    by (simp add: paperCtx_def demoCertCtx_def demoMarket_def demoCertState_def freshInterval_def)
  have h3: "findBestAvailableSellPrice ?bids STOP_LOSS_PRICE STOP_LOSS_BUFFER = Some (149 / 200)"
    by code_simp
  have h4: "proceedsFromSellingSharesToBidsReal ?bids (cp_shares (demoPosition Down 10))
      (Some (149 / 200)) = Some ?sf"
    by code_simp
  have h5: "1 \<le> cp_shares (demoPosition Down 10)" by (simp add: demoPosition_def)
  have sh: "cp_shares (demoPosition Down 10) = 10" by (simp add: demoPosition_def)
  have h6: "executePaperSell paperCtx (Some (demoPosition Down 10)) (Some ?sf) StopLoss (50, ?cst)
      = (fst paperStopped, snd paperStopped)"
    using h4 unfolding sh paperStopped_def by simp
  have bal: "fst paperStopped = 11482401 / 200000" by code_simp
  have ok: "0 < (10::rat) \<and> rf_cost paperFill + ORDER_GAS_USDC \<le> fst paperStopped"
    unfolding bal by (simp add: paperFill_def ORDER_GAS_USDC_def)
  have ps: "(fst paperStopped, snd paperStopped) = paperStopped" by simp
  note t = paper_reentry_band_after_stop_loss [OF h1 h2 h3 h4 h5 h6, unfolded ps]
  from t have "fst (getCurrentEntryRange paperCtx (snd paperStopped))
      = \<lparr> er_min = 149 / 200 - STOP_LOSS_BUFFER, er_max = 149 / 200 + STOP_LOSS_BUFFER \<rparr>"
    by auto
  then have b: "fst (getCurrentEntryRange paperCtx (snd paperStopped))
      = \<lparr> er_min = 73 / 100, er_max = 19 / 25 \<rparr>"
    by (simp add: STOP_LOSS_BUFFER_def)
  from t ok have u: "map_option cp_side
        (cs_open (snd (executePaperBuy paperCtx 2 Up (Some ''up-token'') 10 (Some paperFill) (19 / 25)
                         (fst paperStopped) paperStopped))) = Some Up
   \<and> fst (getCurrentEntryRange paperCtx
             (snd (executePaperBuy paperCtx 2 Up (Some ''up-token'') 10 (Some paperFill) (19 / 25)
                     (fst paperStopped) paperStopped))) = defaultEntryRange"
    by blast
  from t ok have d: "map_option cp_side
        (cs_open (snd (executePaperBuy paperCtx 2 Down (Some ''down-token'') 10 (Some paperFill) (19 / 25)
                         (fst paperStopped) paperStopped))) = Some Down
   \<and> fst (getCurrentEntryRange paperCtx
             (snd (executePaperBuy paperCtx 2 Down (Some ''down-token'') 10 (Some paperFill) (19 / 25)
                     (fst paperStopped) paperStopped))) = defaultEntryRange"
    by blast
  from b u d show ?thesis by simp
qed

text \<open>
  C8 (feed disagreement).  On a tick the engine hands to the mode (spot known and positive,
  both books with a positive mark) on which Binance and Chainlink, both fresh in source mode
  auto, disagree by more than the hard threshold: the suggested side, shares and limit price
  are cleared, the entry step changes nothing, no position is opened where none was open and
  the balance is then untouched, and a position still open after the tick is the one that
  was open before it.
\<close>

theorem C8_hard_disagreement_suppresses_entry:
  assumes "mi_underlyingPrice (lx_market ctx) = Some spot" "0 < spot" "marksPositive ctx"
    and "feedDisagreementUsd ctx = Some d" "LAG_FEED_DISAGREE_USD_HARD < d"
  shows "lag_suggestedSide (snd (lagOnOrderbooks evalRest ctx x y (bal, st))) = None
     \<and> lag_suggestedShares (snd (lagOnOrderbooks evalRest ctx x y (bal, st))) = None
     \<and> lag_suggestedLimitPrice (snd (lagOnOrderbooks evalRest ctx x y (bal, st))) = None
     \<and> lagOnOrderbooks evalRest ctx x y (bal, st)
         = maybeExitLag ctx x (bal, evalLagSignal evalRest ctx st)
     \<and> (lag_open st = None \<longrightarrow>
           lag_open (snd (lagOnOrderbooks evalRest ctx x y (bal, st))) = None
         \<and> fst (lagOnOrderbooks evalRest ctx x y (bal, st)) = bal)
     \<and> (\<forall>p'. lag_open (snd (lagOnOrderbooks evalRest ctx x y (bal, st))) = Some p' \<longrightarrow>
           (\<exists>p. lag_open st = Some p
              \<and> p' \<lparr> lpo_stopHits := 0, lpo_mismatchLogged := False \<rparr>
                 = p \<lparr> lpo_stopHits := 0, lpo_mismatchLogged := False \<rparr>))"
proof -
  define st1 where "st1 = evalLagSignal evalRest ctx st"
  have e: "lag_suggestedSide st1 = None" "lag_suggestedShares st1 = None"
    "lag_suggestedLimitPrice st1 = None" "lag_open st1 = lag_open st"
    using evalLagSignal_hard [OF assms, of evalRest st] by (simp_all add: st1_def)
  obtain b2 st2 where x: "maybeExitLag ctx x (bal, st1) = (b2, st2)"
    by (cases "maybeExitLag ctx x (bal, st1)") auto
  have k: "lag_suggestedSide st2 = None" "lag_suggestedShares st2 = None"
    "lag_suggestedLimitPrice st2 = None"
    using maybeExitLag_keeps_suggestion [of ctx x bal st1] e x by simp_all
  have r: "lagOnOrderbooks evalRest ctx x y (bal, st) = (b2, st2)"
    using maybeExecuteLag_no_suggestion [OF k(1), of ctx y b2] x
    by (simp add: lagOnOrderbooks_def st1_def)
  have n: "lag_open st = None \<longrightarrow> lag_open st2 = None \<and> b2 = bal"
    using maybeExitLag_no_position [of st1 ctx x bal] e(4) x by auto
  have s: "\<forall>p'. lag_open st2 = Some p' \<longrightarrow>
           (\<exists>p. lag_open st = Some p
              \<and> p' \<lparr> lpo_stopHits := 0, lpo_mismatchLogged := False \<rparr>
                 = p \<lparr> lpo_stopHits := 0, lpo_mismatchLogged := False \<rparr>)"
    using maybeExitLag_same_position [of ctx x bal st1] e(4) x by auto
  show ?thesis unfolding r using k n s x by (simp add: st1_def)
qed

theorem C8_hard_disagreement_witness:
  "feedDisagreementUsd (demoLagCtx 100300 100050) = Some 250
   \<and> lag_suggestedSide (snd (lagOnOrderbooks (\<lambda>ctx st. st) (demoLagCtx 100300 100050) False False
        (100, demoLagState))) = None
   \<and> lag_open (snd (lagOnOrderbooks (\<lambda>ctx st. st) (demoLagCtx 100300 100050) False False
        (100, demoLagState))) = None
   \<and> fst (lagOnOrderbooks (\<lambda>ctx st. st) (demoLagCtx 100300 100050) False False
        (100, demoLagState)) = 100
   \<and> lag_open (snd (lagOnOrderbooks (\<lambda>ctx st. st) (demoLagCtx 100060 100050) False False
        (100, demoLagState))) \<noteq> None
   \<and> fst (lagOnOrderbooks (\<lambda>ctx st. st) (demoLagCtx 100060 100050) False False
        (100, demoLagState)) = 195 / 2"
proof -
  let ?ctx = "demoLagCtx 100300 100050"
  have h1: "mi_underlyingPrice (lx_market ?ctx) = Some 100050"
    by (simp add: demoLagCtx_def demoMarket_def)
  have h2: "(0::rat) < 100050" by simp
  have h3: "marksPositive ?ctx" by (simp add: demoLagCtx_def marksPositive_def)
  have h4: "feedDisagreementUsd ?ctx = Some 250" by code_simp
  have h5: "LAG_FEED_DISAGREE_USD_HARD < 250" by (simp add: LAG_FEED_DISAGREE_USD_HARD_def)
  have o: "lag_open demoLagState = None" by (simp add: demoLagState_def)
  note t = C8_hard_disagreement_suppresses_entry [OF h1 h2 h3 h4 h5,
      of "\<lambda>ctx st. st" False False 100 demoLagState]
  have a: "lag_suggestedSide (snd (lagOnOrderbooks (\<lambda>ctx st. st) ?ctx False False
        (100, demoLagState))) = None" using t by blast
  have b: "lag_open (snd (lagOnOrderbooks (\<lambda>ctx st. st) ?ctx False False (100, demoLagState))) = None
     \<and> fst (lagOnOrderbooks (\<lambda>ctx st. st) ?ctx False False (100, demoLagState)) = 100"
    using t o by blast
  have c: "lag_open (snd (lagOnOrderbooks (\<lambda>ctx st. st) (demoLagCtx 100060 100050) False False
        (100, demoLagState))) \<noteq> None
     \<and> fst (lagOnOrderbooks (\<lambda>ctx st. st) (demoLagCtx 100060 100050) False False
        (100, demoLagState)) = 195 / 2"
    by code_simp
  from h4 a b c show ?thesis by blast
qed

text \<open>
  C10 (paper entries stay within the balance).  \<open>executePaperStraddle\<close>, the paper entry of
  \<open>maybeExecuteLag\<close> and \<open>executePaperBuy\<close> leave the balance and the state unchanged when
  the fee-inclusive cost (plus order gas for the certainty buy) exceeds the paper balance,
  and none of them, nor \<open>maybeExecuteLag\<close> as a whole, makes a balance that is not negative
  negative.
\<close>

theorem C10_paper_entries_within_balance:
  "(cost > bal \<longrightarrow> executePaperStraddle mi n cost (bal, arbOpen) = (bal, arbOpen))
   \<and> (0 \<le> bal \<longrightarrow> 0 \<le> fst (executePaperStraddle mi n cost (bal, arbOpen)))
   \<and> (\<forall>fill. costToBuySharesFromAsks (sideAsks lctx s) shares (Some fee) = Some fill
               \<and> bf_cost fill > bal \<longrightarrow>
          lagPaperEntry lctx s tok shares px ts sp fee (bal, lst) = (bal, lst))
   \<and> (0 \<le> bal \<longrightarrow> 0 \<le> fst (lagPaperEntry lctx s tok shares px ts sp fee (bal, lst)))
   \<and> (lx_PAPER_TRADING lctx \<and> 0 \<le> bal \<longrightarrow> 0 \<le> fst (maybeExecuteLag lctx y (bal, lst)))
   \<and> (rf_cost f + ORDER_GAS_USDC > bal \<longrightarrow>
          executePaperBuy cctx tid s tokOpt shares (Some f) mp cap (bal, cst) = (bal, cst))
   \<and> (0 \<le> bal \<longrightarrow> 0 \<le> fst (executePaperBuy cctx tid s tokOpt shares fillOpt mp cap (bal, cst)))"
proof (intro conjI impI allI)
  show "executePaperStraddle mi n cost (bal, arbOpen) = (bal, arbOpen)" if "cost > bal"
    using that by (simp add: executePaperStraddle_def Let_def)
  show "0 \<le> fst (executePaperStraddle mi n cost (bal, arbOpen))" if "0 \<le> bal"
    using that by (simp add: executePaperStraddle_def executePaperDelta_def Let_def)
  show "lagPaperEntry lctx s tok shares px ts sp fee (bal, lst) = (bal, lst)"
    if "costToBuySharesFromAsks (sideAsks lctx s) shares (Some fee) = Some fill \<and> bf_cost fill > bal"
    for fill
    using that by (simp add: lagPaperEntry_def)
  show "0 \<le> fst (lagPaperEntry lctx s tok shares px ts sp fee (bal, lst))" if "0 \<le> bal"
    using that by (rule lagPaperEntry_nonneg)
  show "0 \<le> fst (maybeExecuteLag lctx y (bal, lst))" if "lx_PAPER_TRADING lctx \<and> 0 \<le> bal"
    using that maybeExecuteLag_paper_nonneg by blast
  show "executePaperBuy cctx tid s tokOpt shares (Some f) mp cap (bal, cst) = (bal, cst)"
    if "rf_cost f + ORDER_GAS_USDC > bal"
    using that by (simp add: executePaperBuy_def Let_def)
  show "0 \<le> fst (executePaperBuy cctx tid s tokOpt shares fillOpt mp cap (bal, cst))" if "0 \<le> bal"
    using that executePaperBuy_cases [of cctx tid s tokOpt shares fillOpt mp cap bal cst] by auto
qed

theorem C10_paper_entries_witness:
  "executePaperStraddle demoMarket 10 20 (10, None) = (10, None)
   \<and> 0 \<le> fst (executePaperStraddle demoMarket 10 (19 / 2) (10, None))
   \<and> fst (executePaperStraddle demoMarket 10 (19 / 2) (10, None)) = 1 / 2
   \<and> lagPaperEntry (demoLagCtx 100060 100050) Up ''up-token'' 5 (1 / 2) (51 / 100) (99 / 200) 0
         (2, demoLagState) = (2, demoLagState)
   \<and> 0 \<le> fst (maybeExecuteLag (demoLagCtx 100060 100050) False (100, demoLagState))
   \<and> executePaperBuy (demoCertCtx (4/5) (81/100) (9/50) (1/5)) 1 Up (Some ''up-token'') 10
         (Some \<lparr> rf_shares = 10, rf_notional = 81 / 10, rf_fee = 1539 / 50000,
                  rf_cost = 406539 / 50000, rf_maxPrice = 81 / 100, rf_avgPrice = 81 / 100 \<rparr>)
         (82 / 100) 5
         (5, demoCertState freshInterval (demoCandles (39/50) (81/100) 1700000090000 (19/25))
               (demoCandles (11/50) (1/5) 1700000090000 (6/25)))
       = (5, demoCertState freshInterval (demoCandles (39/50) (81/100) 1700000090000 (19/25))
               (demoCandles (11/50) (1/5) 1700000090000 (6/25)))"
proof -
  note t = C10_paper_entries_within_balance
  have a: "executePaperStraddle demoMarket 10 20 (10, None) = (10, None)"
    using t [where cost = 20 and bal = 10 and mi = demoMarket and n = 10 and arbOpen = None] by simp
  have b: "0 \<le> fst (executePaperStraddle demoMarket 10 (19 / 2) (10, None))"
    using t [where cost = "19 / 2" and bal = 10 and mi = demoMarket and n = 10 and arbOpen = None] by simp
  have b': "fst (executePaperStraddle demoMarket 10 (19 / 2) (10, None)) = 1 / 2"
    by (simp add: executePaperStraddle_def executePaperDelta_def)
  have f: "costToBuySharesFromAsks (sideAsks (demoLagCtx 100060 100050) Up) 5 (Some 0)
      = Some \<lparr> bf_cost = 5 / 2, bf_maxPrice = 1 / 2 \<rparr>"
    by code_simp
  have c: "lagPaperEntry (demoLagCtx 100060 100050) Up ''up-token'' 5 (1 / 2) (51 / 100) (99 / 200) 0
         (2, demoLagState) = (2, demoLagState)"
    using t [where bal = 2 and lctx = "demoLagCtx 100060 100050" and s = Up and shares = 5
        and fee = 0 and tok = "''up-token''" and px = "1 / 2" and ts = "51 / 100"
        and sp = "99 / 200" and lst = demoLagState] f by simp
  have p: "lx_PAPER_TRADING (demoLagCtx 100060 100050)" by (simp add: demoLagCtx_def)
  have d: "0 \<le> fst (maybeExecuteLag (demoLagCtx 100060 100050) False (100, demoLagState))"
    using t [where bal = 100 and lctx = "demoLagCtx 100060 100050" and lst = demoLagState
        and y = False] p by simp
  have e: "executePaperBuy (demoCertCtx (4/5) (81/100) (9/50) (1/5)) 1 Up (Some ''up-token'') 10
         (Some \<lparr> rf_shares = 10, rf_notional = 81 / 10, rf_fee = 1539 / 50000,
                  rf_cost = 406539 / 50000, rf_maxPrice = 81 / 100, rf_avgPrice = 81 / 100 \<rparr>)
         (82 / 100) 5
         (5, demoCertState freshInterval (demoCandles (39/50) (81/100) 1700000090000 (19/25))
               (demoCandles (11/50) (1/5) 1700000090000 (6/25)))
       = (5, demoCertState freshInterval (demoCandles (39/50) (81/100) 1700000090000 (19/25))
               (demoCandles (11/50) (1/5) 1700000090000 (6/25)))"
    using t [where bal = 5 and f = "\<lparr> rf_shares = 10, rf_notional = 81 / 10, rf_fee = 1539 / 50000,
                  rf_cost = 406539 / 50000, rf_maxPrice = 81 / 100, rf_avgPrice = 81 / 100 \<rparr>"
        and cctx = "demoCertCtx (4/5) (81/100) (9/50) (1/5)" and tid = 1 and s = Up
        and tokOpt = "Some ''up-token''" and shares = 10 and mp = "82 / 100" and cap = 5
        and cst = "demoCertState freshInterval (demoCandles (39/50) (81/100) 1700000090000 (19/25))
               (demoCandles (11/50) (1/5) 1700000090000 (6/25))"]
    by (simp add: ORDER_GAS_USDC_def)
  from a b b' c d e show ?thesis by simp
qed

end
